theory Spec2Isabelle
  imports Complex_Main "HOL-Library.Multiset"
begin

section \<open>Sampling spaces and the factory functions\<close>

text \<open>
  \<^verbatim>\<open>enum class SamplingSpace { R2 = 21, SO2 = 22, SE2 = 23, R3 = 31, SO3 = 32, SE3 = 33 }\<close>
  (SamplingUtils.h). A scoped enumeration without a fixed underlying type has underlying
  type \<^verbatim>\<open>int\<close>, and every value of that type can be cast to it, so a value of the
  enumeration is modelled by its integer: the six enumerators are six constants, and every
  other integer is an unrecognized value.
\<close>

type_synonym SamplingSpace = int

definition R2 :: SamplingSpace where "R2 = 21"
definition SO2 :: SamplingSpace where "SO2 = 22"
definition SE2 :: SamplingSpace where "SE2 = 23"
definition R3 :: SamplingSpace where "R3 = 31"
definition SO3 :: SamplingSpace where "SO3 = 32"
definition SE3 :: SamplingSpace where "SE3 = 33"

text \<open>
  \<^verbatim>\<open>mc_rtc::log::error_and_throw<std::runtime_error>(fmt, args...)\<close> formats the message
  and throws; the exception is the \<open>Inl\<close> branch of a result. The placeholder \<^verbatim>\<open>{}\<close>
  prints an \<^verbatim>\<open>int\<close> in decimal, which \<open>show_int\<close> computes. An exception of another
  class that a collaborator throws is \<open>StdException\<close> with its message.
\<close>

datatype error = RuntimeError string | StdException string

definition digit_char :: "nat \<Rightarrow> char" where
  "digit_char d = ''0123456789'' ! d"

function show_nat :: "nat \<Rightarrow> string" where
  "show_nat n = (if n < 10 then [digit_char n] else show_nat (n div 10) @ [digit_char (n mod 10)])"
  by pat_completeness auto
termination
  by (relation "measure id") auto

declare show_nat.simps [simp del]

definition show_int :: "int \<Rightarrow> string" where
  "show_int i = (if i < 0 then CHR ''-'' # show_nat (nat (- i)) else show_nat (nat i))"

text \<open>\<^verbatim>\<open>std::to_string(SamplingSpace)\<close>, SamplingUtils.h lines 130 to 161.\<close>

definition to_string :: "SamplingSpace \<Rightarrow> error + string" where
  "to_string sampling_space =
     (if sampling_space = R2 then Inr ''R2''
      else if sampling_space = SO2 then Inr ''SO2''
      else if sampling_space = SE2 then Inr ''SE2''
      else if sampling_space = R3 then Inr ''R3''
      else if sampling_space = SO3 then Inr ''SO3''
      else if sampling_space = SE3 then Inr ''SE3''
      else Inl (RuntimeError (''[to_string] Unsupported SamplingSpace: '' @ show_int sampling_space)))"

text \<open>
  The constructors that the factories run call collaborators outside the sources at hand,
  each of which can throw: the constructor of the base class \<^verbatim>\<open>RmapPlanning\<close>, which
  loads the classifier from \<^verbatim>\<open>svm_path\<close> and the grid from \<^verbatim>\<open>bag_path\<close>;
  \<^verbatim>\<open>nh_.advertise\<close> for a topic; the set-up of the robot array
  (\<^verbatim>\<open>rb_arr_.push_back(rb)\<close>, \<^verbatim>\<open>rb_arr_.setup()\<close> and the construction of
  \<^verbatim>\<open>RobotConfigArray\<close>); and \<^verbatim>\<open>rb->bodyIndexByName\<close>. They are the fields of a
  record, so that every exception they throw is a branch of the constructor that calls them.
\<close>

record ('rb, 'b) Collaborators =
  RmapPlanning_ctor :: "SamplingSpace \<Rightarrow> string \<Rightarrow> string \<Rightarrow> error + 'b"
  advertise :: "string \<Rightarrow> error + unit"
  robot_setup :: "'rb \<Rightarrow> error + unit"
  bodyIndexByName :: "'rb \<Rightarrow> string \<Rightarrow> error + nat"

fun advertise_all :: "(string \<Rightarrow> error + unit) \<Rightarrow> string list \<Rightarrow> error + unit" where
  "advertise_all adv [] = Inr ()"
| "advertise_all adv (topic # topics) =
     (case adv topic of Inl e \<Rightarrow> Inl e | Inr _ \<Rightarrow> advertise_all adv topics)"

text \<open>
  An instance is the template argument of its class with the members the constructor
  sets from its arguments: the base-class part of a footstep planner; the robot, the body
  name, the body index and the joint names of a sampler.
\<close>

datatype 'b RmapPlanningBase = RmapPlanningFootstep SamplingSpace 'b

datatype 'rb RmapSamplingBase = RmapSampling SamplingSpace 'rb string nat "string list"

text \<open>
  The constructor of \<^verbatim>\<open>RmapPlanningFootstep<SamplingSpaceType>\<close>,
  RmapPlanningFootstep.cpp lines 22 to 38: the base-class constructor, two topics, and two more
  in the instantiation for SE2.
\<close>

definition RmapPlanningFootstep_ctor ::
  "('rb, 'b) Collaborators \<Rightarrow> SamplingSpace \<Rightarrow> string \<Rightarrow> string \<Rightarrow> error + 'b RmapPlanningBase" where
  "RmapPlanningFootstep_ctor ext sp svm_path bag_path =
     (case RmapPlanning_ctor ext sp svm_path bag_path of
        Inl e \<Rightarrow> Inl e
      | Inr base \<Rightarrow>
          (case advertise_all (advertise ext)
                  ([''current_pose_arr'', ''current_poly_arr''] @
                   (if sp = SE2 then [''current_left_poly_arr'', ''current_right_poly_arr'']
                    else [])) of
             Inl e \<Rightarrow> Inl e
           | Inr _ \<Rightarrow> Inr (RmapPlanningFootstep sp base)))"

text \<open>
  The constructors of \<^verbatim>\<open>RmapSampling<SamplingSpaceType>\<close>, RmapSampling.cpp lines 14 to
  40: the constructor with body and joints delegates to the one that sets the robot up and
  advertises three topics, then looks the body up by its name.
\<close>

definition RmapSampling_ctor ::
  "('rb, 'b) Collaborators \<Rightarrow> SamplingSpace \<Rightarrow> 'rb \<Rightarrow> string \<Rightarrow> string list \<Rightarrow>
     error + 'rb RmapSamplingBase" where
  "RmapSampling_ctor ext sp rb body_name joint_name_list =
     (case robot_setup ext rb of
        Inl e \<Rightarrow> Inl e
      | Inr _ \<Rightarrow>
          (case advertise_all (advertise ext)
                  [''robot_state_arr'', ''reachable_cloud'', ''unreachable_cloud''] of
             Inl e \<Rightarrow> Inl e
           | Inr _ \<Rightarrow>
               (case bodyIndexByName ext rb body_name of
                  Inl e \<Rightarrow> Inl e
                | Inr body_idx \<Rightarrow> Inr (RmapSampling sp rb body_name body_idx joint_name_list))))"

text \<open>
  The two factories. \<^verbatim>\<open>std::make_shared<RmapPlanningFootstep<SamplingSpace::R2>>(svm_path, bag_path)\<close>
  runs the constructor of the instantiation for R2 and returns the instance, or lets the
  constructor's exception through. In the last branch the argument
  \<^verbatim>\<open>std::to_string(sampling_space)\<close> is evaluated before \<^verbatim>\<open>error_and_throw\<close> is entered,
  so an exception of \<open>to_string\<close> is the one that leaves the factory.
\<close>

definition createRmapPlanningFootstep ::
  "('rb, 'b) Collaborators \<Rightarrow> SamplingSpace \<Rightarrow> string \<Rightarrow> string \<Rightarrow> error + 'b RmapPlanningBase" where
  "createRmapPlanningFootstep ext sampling_space svm_path bag_path =
     (if sampling_space = R2 then RmapPlanningFootstep_ctor ext R2 svm_path bag_path
      else if sampling_space = SO2 then RmapPlanningFootstep_ctor ext SO2 svm_path bag_path
      else if sampling_space = SE2 then RmapPlanningFootstep_ctor ext SE2 svm_path bag_path
      else if sampling_space = R3 then RmapPlanningFootstep_ctor ext R3 svm_path bag_path
      else if sampling_space = SO3 then RmapPlanningFootstep_ctor ext SO3 svm_path bag_path
      else if sampling_space = SE3 then RmapPlanningFootstep_ctor ext SE3 svm_path bag_path
      else (case to_string sampling_space of
              Inl e \<Rightarrow> Inl e
            | Inr name \<Rightarrow> Inl (RuntimeError
                (''[createRmapPlanningFootstep] Unsupported SamplingSpace: '' @ name))))"

definition createRmapSampling ::
  "('rb, 'b) Collaborators \<Rightarrow> SamplingSpace \<Rightarrow> 'rb \<Rightarrow> string \<Rightarrow> string list \<Rightarrow>
     error + 'rb RmapSamplingBase" where
  "createRmapSampling ext sampling_space rb body_name joint_name_list =
     (if sampling_space = R2 then RmapSampling_ctor ext R2 rb body_name joint_name_list
      else if sampling_space = SO2 then RmapSampling_ctor ext SO2 rb body_name joint_name_list
      else if sampling_space = SE2 then RmapSampling_ctor ext SE2 rb body_name joint_name_list
      else if sampling_space = R3 then RmapSampling_ctor ext R3 rb body_name joint_name_list
      else if sampling_space = SO3 then RmapSampling_ctor ext SO3 rb body_name joint_name_list
      else if sampling_space = SE3 then RmapSampling_ctor ext SE3 rb body_name joint_name_list
      else (case to_string sampling_space of
              Inl e \<Rightarrow> Inl e
            | Inr name \<Rightarrow> Inl (RuntimeError
                (''[createRmapSampling] Unsupported SamplingSpace: '' @ name))))"

text \<open>
  Collaborators for concrete inputs: a robot is the list of its body names, and looking up
  a name that is not in the list throws; the base-class
  constructor throws for an empty classifier path and keeps the two paths otherwise;
  advertising and the set-up of the robot succeed.
\<close>

definition stub_collaborators :: "(string list, string \<times> string) Collaborators" where
  "stub_collaborators =
     \<lparr>RmapPlanning_ctor = (\<lambda>sp svm_path bag_path.
         if svm_path = [] then Inl (StdException ''cannot load the classifier'')
         else Inr (svm_path, bag_path)),
      advertise = (\<lambda>topic. Inr ()),
      robot_setup = (\<lambda>rb. Inr ()),
      bodyIndexByName = (\<lambda>rb name.
         if name \<in> set rb then Inr (length (takeWhile (\<lambda>b. b \<noteq> name) rb))
         else Inl (StdException ''out_of_range''))\<rparr>"

section \<open>Dumping the sample set\<close>

text \<open>
  A sample is a fixed-size Eigen vector of \<^verbatim>\<open>sample_dim_\<close> doubles, modelled as a list
  of reals of that length; \<^verbatim>\<open>double\<close> arithmetic is idealized by the reals.
  The message types are those of \<^verbatim>\<open>differentiable_rmap/RmapSampleSet\<close>: one record per
  sample with its \<^verbatim>\<open>position\<close> and \<^verbatim>\<open>is_reachable\<close>, and the set with its
  \<^verbatim>\<open>type\<close>, \<^verbatim>\<open>samples\<close>, \<^verbatim>\<open>min\<close> and \<^verbatim>\<open>max\<close>.
\<close>

type_synonym vec = "real list"

record RmapSample =
  position :: "real list"
  is_reachable :: bool

record RmapSampleSet =
  msg_type :: nat
  samples :: "RmapSample list"
  msg_min :: "real list"
  msg_max :: "real list"

text \<open>A default-constructed message, as \<^verbatim>\<open>samples.resize(n)\<close> creates it.\<close>

definition default_sample :: RmapSample where
  "default_sample = \<lparr>position = [], is_reachable = False\<rparr>"

definition cwiseMin :: "vec \<Rightarrow> vec \<Rightarrow> vec" where
  "cwiseMin a b = map2 min a b"

definition cwiseMax :: "vec \<Rightarrow> vec \<Rightarrow> vec" where
  "cwiseMax a b = map2 max a b"

text \<open>The local variables of \<^verbatim>\<open>dumpSampleSet\<close> that the loop changes.\<close>

record dump_state =
  set_samples :: "RmapSample list"
  sample_min :: vec
  sample_max :: vec
  reachable_idx :: nat
  unreachable_idx :: nat

text \<open>
  One iteration of the loop of lines 161 to 184. \<^verbatim>\<open>position.resize(sample_dim_)\<close>
  followed by the copy of every component leaves the first \<^verbatim>\<open>sample_dim_\<close> components
  of the sample. The index \<^verbatim>\<open>sample_list_.size() - 1 - unreachable_idx\<close> is computed in
  \<^verbatim>\<open>size_t\<close>; \<^verbatim>\<open>unreachable_idx\<close> never exceeds the loop index, so the subtraction
  does not wrap.
\<close>

definition dump_iter :: "nat \<Rightarrow> vec list \<Rightarrow> bool list \<Rightarrow> nat \<Rightarrow> dump_state \<Rightarrow> dump_state" where
  "dump_iter sample_dim sample_list reachability_list i st =
     (let sample = sample_list ! i;
          msg_idx = (if reachability_list ! i then reachable_idx st
                     else length sample_list - 1 - unreachable_idx st);
          st1 = (if reachability_list ! i then st\<lparr>reachable_idx := reachable_idx st + 1\<rparr>
                 else st\<lparr>unreachable_idx := unreachable_idx st + 1\<rparr>);
          msg = (set_samples st ! msg_idx)
                  \<lparr>position := map (\<lambda>j. sample ! j) [0..<sample_dim],
                   is_reachable := reachability_list ! i\<rparr>
      in st1\<lparr>set_samples := (set_samples st)[msg_idx := msg],
             sample_min := cwiseMin (sample_min st) sample,
             sample_max := cwiseMax (sample_max st) sample\<rparr>)"

definition dump_init :: "nat \<Rightarrow> nat \<Rightarrow> dump_state" where
  "dump_init sample_dim n =
     \<lparr>set_samples = replicate n default_sample,
      sample_min = replicate sample_dim (10 ^ 10),
      sample_max = replicate sample_dim (- (10 ^ 10)),
      reachable_idx = 0,
      unreachable_idx = 0\<rparr>"

definition dump_loop :: "nat \<Rightarrow> vec list \<Rightarrow> bool list \<Rightarrow> nat \<Rightarrow> dump_state" where
  "dump_loop sample_dim sample_list reachability_list k =
     fold (dump_iter sample_dim sample_list reachability_list) [0..<k]
       (dump_init sample_dim (length sample_list))"

text \<open>
  \<^verbatim>\<open>RmapSampling<SamplingSpaceType>::dumpSampleSet\<close>: the message that is written to the
  bag. \<^verbatim>\<open>static_cast<size_t>(SamplingSpaceType)\<close> is the enumerator's value in 64 bits.
\<close>

definition dumpSampleSet :: "SamplingSpace \<Rightarrow> nat \<Rightarrow> vec list \<Rightarrow> bool list \<Rightarrow> RmapSampleSet" where
  "dumpSampleSet sampling_space sample_dim sample_list reachability_list =
     (let st = dump_loop sample_dim sample_list reachability_list (length sample_list)
      in \<lparr>msg_type = nat (sampling_space mod 2 ^ 64),
          samples = set_samples st,
          msg_min = map (\<lambda>i. sample_min st ! i) [0..<sample_dim],
          msg_max = map (\<lambda>i. sample_max st ! i) [0..<sample_dim]\<rparr>)"

text \<open>The record that the loop stores for one sample and its flag.\<close>

definition sample_msg :: "nat \<Rightarrow> vec \<times> bool \<Rightarrow> RmapSample" where
  "sample_msg sample_dim p = \<lparr>position = map (\<lambda>j. fst p ! j) [0..<sample_dim], is_reachable = snd p\<rparr>"

text \<open>
  The reachable and the unreachable samples among the first \<open>k\<close>, in input order, as the
  records the loop stores for them.
\<close>

definition reach_part :: "nat \<Rightarrow> vec list \<Rightarrow> bool list \<Rightarrow> nat \<Rightarrow> RmapSample list" where
  "reach_part sd sl rl k = map (sample_msg sd) (filter snd (take k (zip sl rl)))"

definition unreach_part :: "nat \<Rightarrow> vec list \<Rightarrow> bool list \<Rightarrow> nat \<Rightarrow> RmapSample list" where
  "unreach_part sd sl rl k = map (sample_msg sd) (filter (\<lambda>p. \<not> snd p) (take k (zip sl rl)))"

section \<open>Dense vectors and matrices\<close>

text \<open>
  An Eigen vector is the list of its coefficients. An Eigen matrix is its number of rows
  and columns with its coefficient function (\<^verbatim>\<open>M(i, j)\<close> is \<open>coeff M i j\<close>). Each
  operation below is the Eigen expression named in its comment; Eigen requires every block
  to lie inside the matrix, which the planners guarantee by the dimensions they compute.
\<close>

record mat =
  rows :: nat
  cols :: nat
  coeff :: "nat \<Rightarrow> nat \<Rightarrow> real"

definition setZero :: "nat \<Rightarrow> nat \<Rightarrow> mat" where
  \<comment> \<open>\<^verbatim>\<open>M.setZero(r, c)\<close>, and \<^verbatim>\<open>M.setZero()\<close> with the sizes of \<^verbatim>\<open>M\<close>\<close>
  "setZero r c = \<lparr>rows = r, cols = c, coeff = (\<lambda>i j. 0)\<rparr>"

definition block_diagonal_setConstant :: "nat \<Rightarrow> nat \<Rightarrow> nat \<Rightarrow> real \<Rightarrow> mat \<Rightarrow> mat" where
  \<comment> \<open>\<^verbatim>\<open>M.block<n, n>(r, c).diagonal().setConstant(v)\<close>\<close>
  "block_diagonal_setConstant n r c v M =
     M\<lparr>coeff := (\<lambda>i j. if r \<le> i \<and> i < r + n \<and> j = c + (i - r) then v else coeff M i j)\<rparr>"

definition block_row_assign :: "nat \<Rightarrow> nat \<Rightarrow> nat \<Rightarrow> vec \<Rightarrow> mat \<Rightarrow> mat" where
  \<comment> \<open>\<^verbatim>\<open>M.block<1, n>(r, c) = v\<close>\<close>
  "block_row_assign n r c v M =
     M\<lparr>coeff := (\<lambda>i j. if i = r \<and> c \<le> j \<and> j < c + n then v ! (j - c) else coeff M i j)\<rparr>"

definition diagonal_tail_setConstant :: "nat \<Rightarrow> real \<Rightarrow> mat \<Rightarrow> mat" where
  \<comment> \<open>\<^verbatim>\<open>M.diagonal().tail<n>().setConstant(v)\<close>\<close>
  "diagonal_tail_setConstant n v M =
     M\<lparr>coeff := (\<lambda>i j. if i = j \<and> min (rows M) (cols M) - n \<le> i \<and> i < min (rows M) (cols M)
                         then v else coeff M i j)\<rparr>"

definition diagonal_segment_setConstant :: "nat \<Rightarrow> nat \<Rightarrow> real \<Rightarrow> mat \<Rightarrow> mat" where
  \<comment> \<open>\<^verbatim>\<open>M.diagonal().segment<n>(s).setConstant(v)\<close>\<close>
  "diagonal_segment_setConstant s n v M =
     M\<lparr>coeff := (\<lambda>i j. if i = j \<and> s \<le> i \<and> i < s + n then v else coeff M i j)\<rparr>"

definition diagonal_segment_add :: "nat \<Rightarrow> nat \<Rightarrow> real \<Rightarrow> mat \<Rightarrow> mat" where
  \<comment> \<open>\<^verbatim>\<open>M.diagonal().segment(s, n).array() += v\<close>; \<^verbatim>\<open>M.diagonal().array() += v\<close> is the
      segment of the whole diagonal, and \<^verbatim>\<open>head(n)\<close> the segment from 0\<close>
  "diagonal_segment_add s n v M =
     M\<lparr>coeff := (\<lambda>i j. if i = j \<and> s \<le> i \<and> i < s + n then coeff M i j + v else coeff M i j)\<rparr>"

definition topLeftCorner_add :: "nat \<Rightarrow> nat \<Rightarrow> mat \<Rightarrow> mat \<Rightarrow> mat" where
  \<comment> \<open>\<^verbatim>\<open>M.topLeftCorner(r, c) += A\<close>; \<^verbatim>\<open>M += A\<close> is the corner of all rows and columns\<close>
  "topLeftCorner_add r c A M =
     M\<lparr>coeff := (\<lambda>i j. if i < r \<and> j < c then coeff M i j + coeff A i j else coeff M i j)\<rparr>"

definition rightCols_diagonal_head_setConstant :: "nat \<Rightarrow> nat \<Rightarrow> real \<Rightarrow> mat \<Rightarrow> mat" where
  \<comment> \<open>\<^verbatim>\<open>M.rightCols(k).diagonal().head(n).setConstant(v)\<close>\<close>
  "rightCols_diagonal_head_setConstant k n v M =
     M\<lparr>coeff := (\<lambda>i j. if i < n \<and> j = cols M - k + i then v else coeff M i j)\<rparr>"

definition bottomRows_negate :: "nat \<Rightarrow> mat \<Rightarrow> mat" where
  \<comment> \<open>\<^verbatim>\<open>M.bottomRows<n>() *= -1\<close>\<close>
  "bottomRows_negate n M =
     M\<lparr>coeff := (\<lambda>i j. if rows M - n \<le> i \<and> i < rows M then - 1 * coeff M i j else coeff M i j)\<rparr>"

definition tail_negate :: "nat \<Rightarrow> vec \<Rightarrow> vec" where
  \<comment> \<open>\<^verbatim>\<open>v.tail<n>() *= -1\<close>\<close>
  "tail_negate n v = take (length v - n) v @ map (\<lambda>x. - 1 * x) (drop (length v - n) v)"

definition setConstant :: "vec \<Rightarrow> real \<Rightarrow> vec" where
  \<comment> \<open>\<^verbatim>\<open>v.setConstant(c)\<close>\<close>
  "setConstant v c = replicate (length v) c"

definition head_setConstant :: "nat \<Rightarrow> real \<Rightarrow> vec \<Rightarrow> vec" where
  \<comment> \<open>\<^verbatim>\<open>v.head(n).setConstant(c)\<close>\<close>
  "head_setConstant n c v = replicate n c @ drop n v"

definition tail_setConstant :: "nat \<Rightarrow> real \<Rightarrow> vec \<Rightarrow> vec" where
  \<comment> \<open>\<^verbatim>\<open>v.tail(n).setConstant(c)\<close>\<close>
  "tail_setConstant n c v = take (length v - n) v @ replicate n c"

definition segment :: "nat \<Rightarrow> nat \<Rightarrow> vec \<Rightarrow> vec" where
  \<comment> \<open>\<^verbatim>\<open>v.segment<n>(s)\<close>\<close>
  "segment s n v = take n (drop s v)"

definition segment_assign :: "nat \<Rightarrow> nat \<Rightarrow> vec \<Rightarrow> vec \<Rightarrow> vec" where
  \<comment> \<open>\<^verbatim>\<open>v.segment<n>(s) = a\<close>\<close>
  "segment_assign s n a v = take s v @ take n a @ drop (s + n) v"

definition vec_add :: "vec \<Rightarrow> vec \<Rightarrow> vec" where
  "vec_add a b = map2 (+) a b"

definition vec_sub :: "vec \<Rightarrow> vec \<Rightarrow> vec" where
  "vec_sub a b = map2 (-) a b"

definition vec_scale :: "real \<Rightarrow> vec \<Rightarrow> vec" where
  "vec_scale c a = map (\<lambda>x. c * x) a"

definition squaredNorm :: "vec \<Rightarrow> real" where
  "squaredNorm v = sum_list (map (\<lambda>x. x * x) v)"

definition mat_vec :: "mat \<Rightarrow> vec \<Rightarrow> vec" where
  \<comment> \<open>\<^verbatim>\<open>M * v\<close>\<close>
  "mat_vec M v = map (\<lambda>i. sum_list (map (\<lambda>j. coeff M i j * v ! j) [0..<cols M])) [0..<rows M]"

definition rowvec_mat :: "vec \<Rightarrow> mat \<Rightarrow> vec" where
  \<comment> \<open>\<^verbatim>\<open>g.transpose() * M\<close>, a row vector\<close>
  "rowvec_mat g M = map (\<lambda>j. sum_list (map (\<lambda>i. g ! i * coeff M i j) [0..<rows M])) [0..<cols M]"

section \<open>The QP and its solver\<close>

text \<open>
  Modelled from the spec: the coefficients of a QP in standard form (objective matrix and
  vector, box bounds, linear equality and inequality matrix and vector), which the planners
  hand to an external solver. \<^verbatim>\<open>OmgCore::QpCoeff\<close> and \<^verbatim>\<open>OmgCore::QpSolver\<close> belong to
  the external library optmotiongen. \<^verbatim>\<open>QpCoeff::setup(dim_var, dim_eq, dim_ineq)\<close>
  stores the three dimensions and sizes the coefficients accordingly, as the planners' use
  of \<^verbatim>\<open>dim_var_\<close> and of the blocks of the coefficients shows. The solver is a
  parameter: \<^verbatim>\<open>qp_solver_->solve(qp_coeff_)\<close> returns a vector and sets the member
  \<^verbatim>\<open>solve_failed_\<close>, so a solver is a function from the coefficients to that pair.
\<close>

record QpCoeff =
  dim_var :: nat
  dim_eq :: nat
  dim_ineq :: nat
  obj_mat :: mat
  obj_vec :: vec
  eq_mat :: mat
  eq_vec :: vec
  ineq_mat :: mat
  ineq_vec :: vec
  x_min :: vec
  x_max :: vec

definition QpCoeff_setup :: "nat \<Rightarrow> nat \<Rightarrow> nat \<Rightarrow> QpCoeff" where
  "QpCoeff_setup dv de di =
     \<lparr>dim_var = dv, dim_eq = de, dim_ineq = di,
      obj_mat = setZero dv dv, obj_vec = replicate dv 0,
      eq_mat = setZero de dv, eq_vec = replicate de 0,
      ineq_mat = setZero di dv, ineq_vec = replicate di 0,
      x_min = replicate dv 0, x_max = replicate dv 0\<rparr>"

type_synonym QpSolver = "QpCoeff \<Rightarrow> vec \<times> bool"

section \<open>The operations of a sampling space\<close>

text \<open>
  The planners are templates over the sampling space. The functions they call on samples
  are declared in SamplingUtils.h and implemented in files that are not part of the sources
  at hand (SamplingUtils.hpp, SVMUtils.h, RmapPlanning.cpp), so one instantiation is a record
  of these functions: the template argument, \<^verbatim>\<open>velDim\<close>, the conversions and
  differences of samples, and the classifier's value and gradient at a sample. A pose
  (\<^verbatim>\<open>sva::PTransformd\<close>) is a value of the type parameter \<open>'p\<close>, with the product and the
  identity of poses; \<open>mirror_lr\<close> is the reflection of lines 74 to 79 of
  RmapPlanningFootstep.cpp (the lateral translation and the yaw angle change sign).
\<close>

record 'p SamplingOps =
  SamplingSpaceType :: SamplingSpace
  vel_dim :: nat
  pose_identity :: 'p
  pose_mult :: "'p \<Rightarrow> 'p \<Rightarrow> 'p"
  mirror_lr :: "'p \<Rightarrow> 'p"
  poseToSample :: "'p \<Rightarrow> vec"
  identity_sample :: vec
  sampleError :: "vec \<Rightarrow> vec \<Rightarrow> vec"
  relSample :: "vec \<Rightarrow> vec \<Rightarrow> vec"
  relVelToVelMat :: "vec \<Rightarrow> vec \<Rightarrow> bool \<Rightarrow> mat"
  integrateVelToSample :: "vec \<Rightarrow> vec \<Rightarrow> vec"
  calcSVMValue :: "vec \<Rightarrow> real"
  calcSVMGrad :: "vec \<Rightarrow> vec"

section \<open>Adjacent regularization\<close>

text \<open>
  One iteration of the loop that fills \<^verbatim>\<open>adjacent_reg_mat_\<close> for \<open>n\<close> waypoints whose
  blocks start at \<open>start\<close>: lines 90 to 99 of RmapPlanningFootstep.cpp and the first loop
  of RmapPlanningLocomanip.cpp (lines 111 to 123) with \<open>start = 0\<close>, the second loop of the
  latter (lines 125 to 137) with \<open>start = hand_start_config_idx_\<close>.
\<close>

definition adjacent_reg_iter :: "nat \<Rightarrow> nat \<Rightarrow> real \<Rightarrow> nat \<Rightarrow> nat \<Rightarrow> mat \<Rightarrow> mat" where
  "adjacent_reg_iter vd n w start i M =
     (let M1 = block_diagonal_setConstant vd (start + i * vd) (start + i * vd)
                 ((if i = n - 1 then 1 else 2) * w) M
      in if i \<noteq> n - 1
         then block_diagonal_setConstant vd (start + i * vd) (start + (i + 1) * vd) (- w)
                (block_diagonal_setConstant vd (start + (i + 1) * vd) (start + i * vd) (- w) M1)
         else M1)"

definition adjacent_reg_loop :: "nat \<Rightarrow> nat \<Rightarrow> real \<Rightarrow> nat \<Rightarrow> nat \<Rightarrow> mat \<Rightarrow> mat" where
  "adjacent_reg_loop vd n w start k M = fold (adjacent_reg_iter vd n w start) [0..<k] M"

section \<open>The footstep planner\<close>

text \<open>
  The options that both planners read under the same name are the fields of one record,
  which each planner's configuration extends, so that every option keeps the name it has
  in the source. \<^verbatim>\<open>footstep_num\<close> and \<^verbatim>\<open>motion_len\<close> are \<^verbatim>\<open>int\<close> options that
  count waypoints; they are natural numbers here (a negative count gives a negative
  dimension, which \<^verbatim>\<open>QpCoeff::setup\<close> cannot allocate).
\<close>

record CommonConfiguration =
  delta_config_limit :: real
  adjacent_reg_weight :: real
  svm_thre :: real

record 'p FootstepConfiguration = CommonConfiguration +
  initial_sample_pose :: 'p
  alternate_lr :: bool
  footstep_num :: nat

text \<open>The members that both planners have, and those of the footstep planner.\<close>

record PlanningState =
  qp_coeff :: QpCoeff
  adjacent_reg_mat :: mat

record FootstepState = PlanningState +
  current_sample_seq :: "vec list"
  target_sample :: vec

text \<open>
  \<^verbatim>\<open>RmapPlanningFootstep::setup\<close>, lines 67 to 86: the initial sample sequence. The
  accumulated pose is threaded through the loop; \<^verbatim>\<open>resize\<close> leaves the samples
  uninitialized and the loop assigns every one of them.
\<close>

definition Footstep_setup_sample_iter ::
  "'p SamplingOps \<Rightarrow> ('p, 'c) FootstepConfiguration_scheme \<Rightarrow> nat \<Rightarrow> 'p \<times> vec list \<Rightarrow> 'p \<times> vec list" where
  "Footstep_setup_sample_iter ops cfg i st =
     (let accum_initial_sample_pose = fst st;
          initial_pose =
            (if SamplingSpaceType ops = SE2 \<and> alternate_lr cfg \<and> i mod 2 = 1
             then mirror_lr ops (initial_sample_pose cfg) else initial_sample_pose cfg);
          accum = pose_mult ops initial_pose accum_initial_sample_pose
      in (accum, (snd st)[i := poseToSample ops accum]))"

text \<open>\<^verbatim>\<open>RmapPlanningFootstep::setup\<close>, lines 58 to 101.\<close>

definition Footstep_setup ::
  "'p SamplingOps \<Rightarrow> ('p, 'c) FootstepConfiguration_scheme \<Rightarrow> FootstepState \<Rightarrow> FootstepState" where
  "Footstep_setup ops cfg P =
     (let qp0 = QpCoeff_setup (vel_dim ops * footstep_num cfg) 0 (footstep_num cfg);
          qp1 = qp0\<lparr>x_min := setConstant (x_min qp0) (- delta_config_limit cfg)\<rparr>;
          qp2 = qp1\<lparr>x_max := setConstant (x_max qp1) (delta_config_limit cfg)\<rparr>;
          seq = snd (fold (Footstep_setup_sample_iter ops cfg) [0..<footstep_num cfg]
                  (pose_identity ops, replicate (footstep_num cfg) []));
          adj = adjacent_reg_loop (vel_dim ops) (footstep_num cfg) (adjacent_reg_weight cfg) 0
                  (footstep_num cfg) (setZero (dim_var qp2) (dim_var qp2))
      in P\<lparr>qp_coeff := qp2, current_sample_seq := seq, adjacent_reg_mat := adj\<rparr>)"

text \<open>
  \<^verbatim>\<open>RmapPlanningFootstep::runOnce\<close>, lines 106 to 121: the objective. The stages are
  the objective vector when \<open>lambda\<close> is computed (lines 107 to 109), \<open>lambda\<close> (line
  110), the objective matrix before the regularization is added (lines 111 to 113), the
  current configuration (lines 114 to 119, every segment of the new vector is assigned) and
  the two additions of lines 120 and 121.
\<close>

definition tail_assign :: "nat \<Rightarrow> vec \<Rightarrow> vec \<Rightarrow> vec" where
  \<comment> \<open>\<^verbatim>\<open>v.tail<n>() = a\<close>\<close>
  "tail_assign n a v = take (length v - n) v @ take n a"

definition mat_add :: "mat \<Rightarrow> mat \<Rightarrow> mat" where
  \<comment> \<open>\<^verbatim>\<open>M += A\<close>\<close>
  "mat_add M A = M\<lparr>coeff := (\<lambda>i j. coeff M i j + coeff A i j)\<rparr>"

definition Footstep_target_error :: "'p SamplingOps \<Rightarrow> FootstepState \<Rightarrow> vec" where
  "Footstep_target_error ops P = sampleError ops (target_sample P) (last (current_sample_seq P))"

definition Footstep_obj_vec0 :: "'p SamplingOps \<Rightarrow> FootstepState \<Rightarrow> vec" where
  "Footstep_obj_vec0 ops P =
     tail_assign (vel_dim ops) (Footstep_target_error ops P)
       (setConstant (obj_vec (qp_coeff P)) 0)"

definition Footstep_lambda :: "'p SamplingOps \<Rightarrow> FootstepState \<Rightarrow> real" where
  "Footstep_lambda ops P = squaredNorm (Footstep_obj_vec0 ops P) + 1 / 1000"

definition Footstep_obj_mat0 :: "'p SamplingOps \<Rightarrow> FootstepState \<Rightarrow> mat" where
  "Footstep_obj_mat0 ops P =
     (let Z = setZero (rows (obj_mat (qp_coeff P))) (cols (obj_mat (qp_coeff P)));
          M1 = diagonal_tail_setConstant (vel_dim ops) 1 Z
      in diagonal_segment_add 0 (min (rows M1) (cols M1)) (Footstep_lambda ops P) M1)"

definition Footstep_current_config ::
  "'p SamplingOps \<Rightarrow> ('p, 'c) FootstepConfiguration_scheme \<Rightarrow> FootstepState \<Rightarrow> vec" where
  "Footstep_current_config ops cfg P =
     fold (\<lambda>i v. segment_assign (i * vel_dim ops) (vel_dim ops)
                   (sampleError ops (identity_sample ops) (current_sample_seq P ! i)) v)
       [0..<footstep_num cfg] (replicate (dim_var (qp_coeff P)) 0)"

definition Footstep_set_objective ::
  "'p SamplingOps \<Rightarrow> ('p, 'c) FootstepConfiguration_scheme \<Rightarrow> FootstepState \<Rightarrow> QpCoeff" where
  "Footstep_set_objective ops cfg P =
     (qp_coeff P)
       \<lparr>obj_vec := vec_add (Footstep_obj_vec0 ops P)
                     (mat_vec (adjacent_reg_mat P) (Footstep_current_config ops cfg P)),
        obj_mat := mat_add (Footstep_obj_mat0 ops P) (adjacent_reg_mat P)\<rparr>"

text \<open>
  Lines 123 to 156: the inequality rows. \<open>mirrored\<close> is the condition of the three
  \<^verbatim>\<open>if constexpr\<close> blocks, which exist only in the instantiation for SE2.
\<close>

definition Footstep_mirrored ::
  "'p SamplingOps \<Rightarrow> ('p, 'c) FootstepConfiguration_scheme \<Rightarrow> nat \<Rightarrow> bool" where
  "Footstep_mirrored ops cfg i = (SamplingSpaceType ops = SE2 \<and> alternate_lr cfg \<and> i mod 2 = 1)"

definition Footstep_pre_sample :: "'p SamplingOps \<Rightarrow> vec list \<Rightarrow> nat \<Rightarrow> vec" where
  "Footstep_pre_sample ops seq i =
     (if i = 0 then poseToSample ops (pose_identity ops) else seq ! (i - 1))"

definition Footstep_rel_sample ::
  "'p SamplingOps \<Rightarrow> ('p, 'c) FootstepConfiguration_scheme \<Rightarrow> vec list \<Rightarrow> nat \<Rightarrow> vec" where
  "Footstep_rel_sample ops cfg seq i =
     (let rel_sample = relSample ops (Footstep_pre_sample ops seq i) (seq ! i)
      in if Footstep_mirrored ops cfg i then tail_negate 2 rel_sample else rel_sample)"

definition Footstep_rel_vel_mat ::
  "'p SamplingOps \<Rightarrow> ('p, 'c) FootstepConfiguration_scheme \<Rightarrow> vec list \<Rightarrow> nat \<Rightarrow> bool \<Rightarrow> mat" where
  "Footstep_rel_vel_mat ops cfg seq i wrt_suc =
     (let rel_vel_mat = relVelToVelMat ops (Footstep_pre_sample ops seq i) (seq ! i) wrt_suc
      in if Footstep_mirrored ops cfg i then bottomRows_negate 2 rel_vel_mat else rel_vel_mat)"

definition Footstep_ineq_row ::
  "'p SamplingOps \<Rightarrow> ('p, 'c) FootstepConfiguration_scheme \<Rightarrow> vec list \<Rightarrow> nat \<Rightarrow> bool \<Rightarrow> vec" where
  \<comment> \<open>\<^verbatim>\<open>-1 * svm_grad.transpose() * rel_vel_mat_suc\<close>, and the same with \<^verbatim>\<open>rel_vel_mat_pre\<close>\<close>
  "Footstep_ineq_row ops cfg seq i wrt_suc =
     rowvec_mat (vec_scale (- 1) (calcSVMGrad ops (Footstep_rel_sample ops cfg seq i)))
       (Footstep_rel_vel_mat ops cfg seq i wrt_suc)"

definition Footstep_ineq_iter ::
  "'p SamplingOps \<Rightarrow> ('p, 'c) FootstepConfiguration_scheme \<Rightarrow> vec list \<Rightarrow> nat \<Rightarrow> QpCoeff \<Rightarrow> QpCoeff" where
  "Footstep_ineq_iter ops cfg seq i qp =
     (let M1 = block_row_assign (vel_dim ops) i (i * vel_dim ops)
                 (Footstep_ineq_row ops cfg seq i True) (ineq_mat qp);
          v1 = (ineq_vec qp)
                 [i := calcSVMValue ops (Footstep_rel_sample ops cfg seq i) - svm_thre cfg];
          M2 = (if i > 0
                then block_row_assign (vel_dim ops) i ((i - 1) * vel_dim ops)
                       (Footstep_ineq_row ops cfg seq i False) M1
                else M1)
      in qp\<lparr>ineq_mat := M2, ineq_vec := v1\<rparr>)"

definition Footstep_set_inequality ::
  "'p SamplingOps \<Rightarrow> ('p, 'c) FootstepConfiguration_scheme \<Rightarrow> vec list \<Rightarrow> QpCoeff \<Rightarrow> QpCoeff" where
  "Footstep_set_inequality ops cfg seq qp =
     fold (Footstep_ineq_iter ops cfg seq) [0..<footstep_num cfg]
       (qp\<lparr>ineq_mat := setZero (rows (ineq_mat qp)) (cols (ineq_mat qp)),
           ineq_vec := setConstant (ineq_vec qp) 0\<rparr>)"

text \<open>
  Lines 158 to 165: the solver's vector is integrated into every sample; the member
  \<^verbatim>\<open>solve_failed_\<close> that the solver sets is not read.
\<close>

definition integrate_seq :: "'p SamplingOps \<Rightarrow> nat \<Rightarrow> nat \<Rightarrow> vec \<Rightarrow> vec list \<Rightarrow> vec list" where
  "integrate_seq ops n start vel_all seq =
     fold (\<lambda>i s. s[i := integrateVelToSample ops (s ! i)
                           (segment (start + i * vel_dim ops) (vel_dim ops) vel_all)])
       [0..<n] seq"

text \<open>
  \<^verbatim>\<open>RmapPlanningFootstep::runOnce\<close>. Publishing has no effect on the planner's state.
  The function has no exit but its end: nothing in it throws, and the solver reports a
  failure by its flag.
\<close>

definition Footstep_runOnce ::
  "'p SamplingOps \<Rightarrow> ('p, 'c) FootstepConfiguration_scheme \<Rightarrow> QpSolver \<Rightarrow> FootstepState \<Rightarrow> FootstepState" where
  "Footstep_runOnce ops cfg solve P =
     (let qp = Footstep_set_inequality ops cfg (current_sample_seq P)
                 (Footstep_set_objective ops cfg P);
          vel_all = fst (solve qp)
      in P\<lparr>qp_coeff := qp,
           current_sample_seq :=
             integrate_seq ops (footstep_num cfg) 0 vel_all (current_sample_seq P)\<rparr>)"

section \<open>The locomanipulation planner\<close>

text \<open>
  \<^verbatim>\<open>Limb\<close> and \<^verbatim>\<open>Limbs::all\<close> come from RmapPlanningLocomanip.h, which is not among the
  sources at hand; the constructor names the three limbs. The planner holds one
  \<^verbatim>\<open>RmapPlanning\<close> instance per limb, of which \<open>runOnce\<close> calls the classifier's value
  and gradient: \<open>rmapPlanning limb\<close> is the record of that instance's operations.
  \<^verbatim>\<open>std::unordered_map::at\<close> throws \<^verbatim>\<open>std::out_of_range\<close> for a missing key.
\<close>

datatype Limb = LeftFoot | RightFoot | LeftHand

definition Limbs_all :: "Limb list" where
  "Limbs_all = [LeftFoot, RightFoot, LeftHand]"

datatype exception = OutOfRange

definition emplace :: "'k \<Rightarrow> 'v \<Rightarrow> ('k \<rightharpoonup> 'v) \<Rightarrow> ('k \<rightharpoonup> 'v)" where
  \<comment> \<open>\<^verbatim>\<open>m.emplace(k, v)\<close> inserts only when the key is absent\<close>
  "emplace k v m = (case m k of None \<Rightarrow> m(k \<mapsto> v) | Some _ \<Rightarrow> m)"

record 'p LocomanipConfiguration = CommonConfiguration +
  motion_len :: nat
  reg_weight :: real
  svm_ineq_weight :: real
  initial_sample_pose_list :: "Limb \<rightharpoonup> 'p"

record LocomanipState = PlanningState +
  config_dim :: nat
  svm_ineq_dim :: nat
  collision_ineq_dim :: nat
  hand_start_config_idx :: nat
  start_sample_list :: "Limb \<rightharpoonup> vec"
  current_foot_sample_seq :: "vec list"
  current_hand_sample_seq :: "vec list"
  target_hand_sample :: vec

text \<open>
  \<^verbatim>\<open>RmapPlanningLocomanip::setup\<close>, lines 71 to 139. \<^verbatim>\<open>3 * motion_len - 1\<close> is computed
  in \<^verbatim>\<open>int\<close>; for a motion length of at least one it is the natural number below.
  The samples of the sequences are looked up with \<^verbatim>\<open>at\<close> one index after the other.
\<close>

definition Locomanip_setup ::
  "'p SamplingOps \<Rightarrow> ('p, 'c) LocomanipConfiguration_scheme \<Rightarrow> LocomanipState \<Rightarrow>
     exception + LocomanipState" where
  "Locomanip_setup ops cfg P =
     (let cd = 2 * motion_len cfg * vel_dim ops;
          sd = 3 * motion_len cfg - 1;
          cld = 0;
          hs = motion_len cfg * vel_dim ops;
          qp0 = QpCoeff_setup (cd + sd + cld) 0 (sd + cld);
          qp1 = qp0\<lparr>x_min := head_setConstant cd (- delta_config_limit cfg) (x_min qp0)\<rparr>;
          qp2 = qp1\<lparr>x_max := head_setConstant cd (delta_config_limit cfg) (x_max qp1)\<rparr>;
          qp3 = qp2\<lparr>x_min := tail_setConstant (sd + cld) (- (10 ^ 10)) (x_min qp2)\<rparr>;
          qp4 = qp3\<lparr>x_max := tail_setConstant (sd + cld) (10 ^ 10) (x_max qp3)\<rparr>;
          start = fold (\<lambda>limb m. emplace limb
                     (poseToSample ops
                        (case initial_sample_pose_list cfg limb of
                           Some pose \<Rightarrow> pose | None \<Rightarrow> pose_identity ops)) m)
                    Limbs_all (start_sample_list P);
          adj_foot = adjacent_reg_loop (vel_dim ops) (motion_len cfg) (adjacent_reg_weight cfg) 0
                       (motion_len cfg) (setZero cd cd);
          adj = adjacent_reg_loop (vel_dim ops) (motion_len cfg) (adjacent_reg_weight cfg) hs
                  (motion_len cfg) adj_foot
      in case those (concat (map (\<lambda>i. [start (if i mod 2 = 0 then LeftFoot else RightFoot),
                                          start LeftHand]) [0..<motion_len cfg])) of
           None \<Rightarrow> Inl OutOfRange
         | Some _ \<Rightarrow>
             Inr (P\<lparr>qp_coeff := qp4, adjacent_reg_mat := adj,
                     config_dim := cd, svm_ineq_dim := sd, collision_ineq_dim := cld,
                     hand_start_config_idx := hs, start_sample_list := start,
                     current_foot_sample_seq :=
                       map (\<lambda>i. the (start (if i mod 2 = 0 then LeftFoot else RightFoot)))
                         [0..<motion_len cfg],
                     current_hand_sample_seq :=
                       map (\<lambda>i. the (start LeftHand)) [0..<motion_len cfg]\<rparr>))"

text \<open>Lines 143 to 172: the objective.\<close>

definition head_add :: "nat \<Rightarrow> vec \<Rightarrow> vec \<Rightarrow> vec" where
  \<comment> \<open>\<^verbatim>\<open>v.head(n) += a\<close>\<close>
  "head_add n a v = vec_add (take n v) a @ drop n v"

definition segment_sub :: "nat \<Rightarrow> nat \<Rightarrow> vec \<Rightarrow> vec \<Rightarrow> vec" where
  \<comment> \<open>\<^verbatim>\<open>v.segment(s, n) -= a\<close>\<close>
  "segment_sub s n a v = take s v @ vec_sub (segment s n v) a @ drop (s + n) v"

definition Locomanip_current_config ::
  "'p SamplingOps \<Rightarrow> ('p, 'c) LocomanipConfiguration_scheme \<Rightarrow> LocomanipState \<Rightarrow> vec" where
  "Locomanip_current_config ops cfg P =
     fold (\<lambda>i v. segment_assign (hand_start_config_idx P + i * vel_dim ops) (vel_dim ops)
                   (sampleError ops (identity_sample ops) (current_hand_sample_seq P ! i))
                   (segment_assign (i * vel_dim ops) (vel_dim ops)
                      (sampleError ops (identity_sample ops) (current_foot_sample_seq P ! i)) v))
       [0..<motion_len cfg] (replicate (config_dim P) 0)"

definition Locomanip_set_objective ::
  "'p SamplingOps \<Rightarrow> ('p, 'c) LocomanipConfiguration_scheme \<Rightarrow> vec \<Rightarrow> vec \<Rightarrow> LocomanipState \<Rightarrow> QpCoeff" where
  "Locomanip_set_objective ops cfg left_foot_start left_hand_start P =
     (let qp = qp_coeff P;
          target_sample_error =
            sampleError ops (target_hand_sample P) (last (current_hand_sample_seq P));
          M0 = setZero (rows (obj_mat qp)) (cols (obj_mat qp));
          M1 = diagonal_segment_setConstant (config_dim P - vel_dim ops) (vel_dim ops) 1 M0;
          M2 = diagonal_segment_add 0 (config_dim P)
                 (squaredNorm target_sample_error + reg_weight cfg) M1;
          M3 = diagonal_segment_setConstant
                 (min (rows M2) (cols M2) - (svm_ineq_dim P + collision_ineq_dim P))
                 (svm_ineq_dim P) (svm_ineq_weight cfg) M2;
          v1 = segment_assign (config_dim P - vel_dim ops) (vel_dim ops) target_sample_error
                 (setConstant (obj_vec qp) 0);
          v2 = head_add (config_dim P)
                 (mat_vec (adjacent_reg_mat P) (Locomanip_current_config ops cfg P)) v1;
          v3 = segment_sub 0 (vel_dim ops)
                 (vec_scale (adjacent_reg_weight cfg)
                    (sampleError ops (identity_sample ops) left_foot_start)) v2;
          v4 = segment_sub (hand_start_config_idx P) (vel_dim ops)
                 (vec_scale (adjacent_reg_weight cfg)
                    (sampleError ops (identity_sample ops) left_hand_start)) v3
      in qp\<lparr>obj_mat := topLeftCorner_add (config_dim P) (config_dim P) (adjacent_reg_mat P) M3,
            obj_vec := v4\<rparr>)"

text \<open>
  Lines 174 to 271: the inequality rows of the reachability between feet, then the
  coefficients of the slack variables. The rows from foot to hand are commented out in the
  source.
\<close>

definition Locomanip_pre_foot_sample :: "vec \<Rightarrow> vec list \<Rightarrow> nat \<Rightarrow> vec" where
  "Locomanip_pre_foot_sample right_foot_start seq i =
     (if i = 0 then right_foot_start else seq ! (i - 1))"

definition Locomanip_rel_sample :: "'p SamplingOps \<Rightarrow> vec \<Rightarrow> vec list \<Rightarrow> nat \<Rightarrow> vec" where
  "Locomanip_rel_sample ops right_foot_start seq i =
     relSample ops (Locomanip_pre_foot_sample right_foot_start seq i) (seq ! i)"

definition Locomanip_foot_limb :: "nat \<Rightarrow> Limb" where
  "Locomanip_foot_limb i = (if i mod 2 = 0 then LeftFoot else RightFoot)"

definition Locomanip_ineq_row ::
  "'p SamplingOps \<Rightarrow> (Limb \<Rightarrow> 'p SamplingOps) \<Rightarrow> vec \<Rightarrow> vec list \<Rightarrow> nat \<Rightarrow> bool \<Rightarrow> vec" where
  \<comment> \<open>\<^verbatim>\<open>-1 * rel_svm_grad.transpose() * relVelToVelMat(pre_foot_sample, suc_foot_sample, wrt_suc)\<close>\<close>
  "Locomanip_ineq_row ops rmapPlanning right_foot_start seq i wrt_suc =
     rowvec_mat
       (vec_scale (- 1)
          (calcSVMGrad (rmapPlanning (Locomanip_foot_limb i))
             (Locomanip_rel_sample ops right_foot_start seq i)))
       (relVelToVelMat ops (Locomanip_pre_foot_sample right_foot_start seq i) (seq ! i) wrt_suc)"

definition Locomanip_ineq_iter ::
  "'p SamplingOps \<Rightarrow> (Limb \<Rightarrow> 'p SamplingOps) \<Rightarrow> ('p, 'c) LocomanipConfiguration_scheme \<Rightarrow>
     vec \<Rightarrow> vec list \<Rightarrow> nat \<Rightarrow> QpCoeff \<Rightarrow> QpCoeff" where
  "Locomanip_ineq_iter ops rmapPlanning cfg right_foot_start seq i qp =
     (let M1 = (if i > 0
                then block_row_assign (vel_dim ops) i ((i - 1) * vel_dim ops)
                       (Locomanip_ineq_row ops rmapPlanning right_foot_start seq i False)
                       (ineq_mat qp)
                else ineq_mat qp);
          M2 = block_row_assign (vel_dim ops) i (i * vel_dim ops)
                 (Locomanip_ineq_row ops rmapPlanning right_foot_start seq i True) M1
      in qp\<lparr>ineq_mat := M2,
            ineq_vec := (ineq_vec qp)
              [i := calcSVMValue (rmapPlanning (Locomanip_foot_limb i))
                      (Locomanip_rel_sample ops right_foot_start seq i) - svm_thre cfg]\<rparr>)"

definition Locomanip_set_inequality ::
  "'p SamplingOps \<Rightarrow> (Limb \<Rightarrow> 'p SamplingOps) \<Rightarrow> ('p, 'c) LocomanipConfiguration_scheme \<Rightarrow>
     vec \<Rightarrow> LocomanipState \<Rightarrow> QpCoeff \<Rightarrow> QpCoeff" where
  "Locomanip_set_inequality ops rmapPlanning cfg right_foot_start P qp =
     (let qp1 = fold (Locomanip_ineq_iter ops rmapPlanning cfg right_foot_start
                        (current_foot_sample_seq P))
                  [0..<motion_len cfg]
                  (qp\<lparr>ineq_mat := setZero (rows (ineq_mat qp)) (cols (ineq_mat qp)),
                      ineq_vec := setConstant (ineq_vec qp) 0\<rparr>)
      in qp1\<lparr>ineq_mat := rightCols_diagonal_head_setConstant
                            (svm_ineq_dim P + collision_ineq_dim P) (svm_ineq_dim P) (- 1)
                            (ineq_mat qp1)\<rparr>)"

text \<open>
  \<^verbatim>\<open>RmapPlanningLocomanip::runOnce\<close>, lines 141 to 297. The start samples are looked
  up with \<^verbatim>\<open>at\<close>: the left foot's and the left hand's for the objective, the right
  foot's in the first iteration of the loop over the feet. After the solver returns, a
  reported failure replaces its vector by zero (lines 280 to 282) before the integration.
\<close>

definition Locomanip_runOnce ::
  "'p SamplingOps \<Rightarrow> (Limb \<Rightarrow> 'p SamplingOps) \<Rightarrow> ('p, 'c) LocomanipConfiguration_scheme \<Rightarrow>
     QpSolver \<Rightarrow> LocomanipState \<Rightarrow> exception + LocomanipState" where
  "Locomanip_runOnce ops rmapPlanning cfg solve P =
     (case start_sample_list P LeftFoot of
        None \<Rightarrow> Inl OutOfRange
      | Some left_foot_start \<Rightarrow>
     (case start_sample_list P LeftHand of
        None \<Rightarrow> Inl OutOfRange
      | Some left_hand_start \<Rightarrow>
     (case (if motion_len cfg = 0 then Some [] else start_sample_list P RightFoot) of
        None \<Rightarrow> Inl OutOfRange
      | Some right_foot_start \<Rightarrow>
          (let qp = Locomanip_set_inequality ops rmapPlanning cfg right_foot_start P
                      (Locomanip_set_objective ops cfg left_foot_start left_hand_start P);
               sol = solve qp;
               vel_all = (if snd sol then setConstant (fst sol) 0 else fst sol)
           in Inr (P\<lparr>qp_coeff := qp,
                     current_foot_sample_seq :=
                       integrate_seq ops (motion_len cfg) 0 vel_all (current_foot_sample_seq P),
                     current_hand_sample_seq :=
                       integrate_seq ops (motion_len cfg) (hand_start_config_idx P) vel_all
                         (current_hand_sample_seq P)\<rparr>)))))"

section \<open>Instances for concrete inputs\<close>

text \<open>
  Modelled from the spec: the operations of a translation-only sampling space, which are
  implemented in SamplingUtils.hpp, a file missing from the sources at hand. The spec
  (section 4.1) gives them for translations: integrating a velocity is addition, the
  error from a predecessor to a successor is the velocity that integrates the first into
  the second, and the relative sample is the successor in the predecessor's frame. The
  classifier is the disk of the spec's end-to-end scenario, of radius one half around the
  origin. A pose is its translation. The theorems about the planners hold for every record
  of operations; this one instantiates them at concrete inputs.
\<close>

definition flat_ops :: "SamplingSpace \<Rightarrow> nat \<Rightarrow> vec SamplingOps" where
  "flat_ops sp d =
     \<lparr>SamplingSpaceType = sp,
      vel_dim = d,
      pose_identity = replicate d 0,
      pose_mult = vec_add,
      mirror_lr = tail_negate 2,
      poseToSample = (\<lambda>p. p),
      identity_sample = replicate d 0,
      sampleError = (\<lambda>pre suc. vec_sub suc pre),
      relSample = (\<lambda>pre suc. vec_sub suc pre),
      relVelToVelMat = (\<lambda>pre suc wrt_suc.
         \<lparr>rows = d, cols = d, coeff = (\<lambda>i j. if i = j then (if wrt_suc then 1 else - 1) else 0)\<rparr>),
      integrateVelToSample = vec_add,
      calcSVMValue = (\<lambda>s. 1 / 4 - squaredNorm s),
      calcSVMGrad = (\<lambda>s. vec_scale (- 2) s)\<rparr>"

text \<open>A solver stub that reports a failure and returns the vector it is given.\<close>

definition failing_solver :: "vec \<Rightarrow> QpSolver" where
  "failing_solver v qp = (v, True)"

text \<open>
  Configurations with \<open>n\<close> waypoints and regularization weight \<open>w\<close> for poses of
  dimension \<open>d\<close>, and planners as their constructors leave them, before \<open>setup\<close>.
\<close>

definition footstep_config_ex :: "nat \<Rightarrow> nat \<Rightarrow> real \<Rightarrow> vec FootstepConfiguration" where
  "footstep_config_ex d n w =
     \<lparr>delta_config_limit = 1 / 10, adjacent_reg_weight = w, svm_thre = 0,
      initial_sample_pose = replicate d (1 / 5), alternate_lr = True, footstep_num = n\<rparr>"

definition locomanip_config_ex :: "nat \<Rightarrow> real \<Rightarrow> vec LocomanipConfiguration" where
  "locomanip_config_ex n w =
     \<lparr>delta_config_limit = 1 / 10, adjacent_reg_weight = w, svm_thre = 0,
      motion_len = n, reg_weight = 1 / 1000, svm_ineq_weight = 1000000,
      initial_sample_pose_list = Map.empty\<rparr>"

definition Footstep_new :: "vec \<Rightarrow> FootstepState" where
  "Footstep_new target =
     \<lparr>qp_coeff = QpCoeff_setup 0 0 0, adjacent_reg_mat = setZero 0 0,
      current_sample_seq = [], target_sample = target\<rparr>"

definition Locomanip_new :: "vec \<Rightarrow> LocomanipState" where
  "Locomanip_new target =
     \<lparr>qp_coeff = QpCoeff_setup 0 0 0, adjacent_reg_mat = setZero 0 0,
      config_dim = 0, svm_ineq_dim = 0, collision_ineq_dim = 0, hand_start_config_idx = 0,
      start_sample_list = Map.empty, current_foot_sample_seq = [],
      current_hand_sample_seq = [], target_hand_sample = target\<rparr>"

section \<open>Properties of the factories\<close>

lemma to_string_unsupported:
  "sampling_space \<notin> {R2, SO2, SE2, R3, SO3, SE3} \<Longrightarrow>
   to_string sampling_space =
     Inl (RuntimeError (''[to_string] Unsupported SamplingSpace: '' @ show_int sampling_space))"
  by (simp add: to_string_def)

lemma advertise_all_ok: "(\<And>topic. adv topic = Inr ()) \<Longrightarrow> advertise_all adv topics = Inr ()"
  by (induction topics) simp_all

lemma createRmapPlanningFootstep_recognized:
  "s \<in> {R2, SO2, SE2, R3, SO3, SE3} \<Longrightarrow>
   createRmapPlanningFootstep ext s svm_path bag_path = RmapPlanningFootstep_ctor ext s svm_path bag_path"
  by (auto simp: createRmapPlanningFootstep_def)

lemma createRmapSampling_recognized:
  "s \<in> {R2, SO2, SE2, R3, SO3, SE3} \<Longrightarrow>
   createRmapSampling ext s rb body_name joint_name_list =
     RmapSampling_ctor ext s rb body_name joint_name_list"
  by (auto simp: createRmapSampling_def)

text \<open>
  Claim C8, as amended. A value of the enumeration other than the six enumerators makes
  both factories throw a \<^verbatim>\<open>std::runtime_error\<close> whose message ends with the decimal
  value of the argument; no constructor runs and no instance is returned. For each of the
  six enumerators a factory runs the constructor of the specialization for that
  enumerator: it returns an instance of that specialization when the constructor's
  collaborators succeed (the base-class constructor and the topics for a footstep planner;
  the robot's set-up, the topics and the lookup of the body name for a sampler), and the
  exception of the base-class constructor or of the lookup of the body name leaves the
  factory instead of an instance.
\<close>

theorem factory_sampling_space:
  "(s \<notin> {R2, SO2, SE2, R3, SO3, SE3} \<longrightarrow>
      createRmapPlanningFootstep ext s svm_path bag_path =
        Inl (RuntimeError (''[to_string] Unsupported SamplingSpace: '' @ show_int s)) \<and>
      createRmapSampling ext s rb body_name joint_name_list =
        Inl (RuntimeError (''[to_string] Unsupported SamplingSpace: '' @ show_int s))) \<and>
   (s \<in> {R2, SO2, SE2, R3, SO3, SE3} \<longrightarrow>
      createRmapPlanningFootstep ext s svm_path bag_path =
        RmapPlanningFootstep_ctor ext s svm_path bag_path \<and>
      createRmapSampling ext s rb body_name joint_name_list =
        RmapSampling_ctor ext s rb body_name joint_name_list) \<and>
   (s \<in> {R2, SO2, SE2, R3, SO3, SE3} \<and> (\<forall>topic. advertise ext topic = Inr ()) \<and>
    RmapPlanning_ctor ext s svm_path bag_path = Inr base \<longrightarrow>
      createRmapPlanningFootstep ext s svm_path bag_path = Inr (RmapPlanningFootstep s base)) \<and>
   (s \<in> {R2, SO2, SE2, R3, SO3, SE3} \<and> (\<forall>topic. advertise ext topic = Inr ()) \<and>
    robot_setup ext rb = Inr () \<and> bodyIndexByName ext rb body_name = Inr body_idx \<longrightarrow>
      createRmapSampling ext s rb body_name joint_name_list =
        Inr (RmapSampling s rb body_name body_idx joint_name_list)) \<and>
   (s \<in> {R2, SO2, SE2, R3, SO3, SE3} \<and> RmapPlanning_ctor ext s svm_path bag_path = Inl e \<longrightarrow>
      createRmapPlanningFootstep ext s svm_path bag_path = Inl e) \<and>
   (s \<in> {R2, SO2, SE2, R3, SO3, SE3} \<and> (\<forall>topic. advertise ext topic = Inr ()) \<and>
    robot_setup ext rb = Inr () \<and> bodyIndexByName ext rb body_name = Inl e \<longrightarrow>
      createRmapSampling ext s rb body_name joint_name_list = Inl e)"
proof -
  have a: "createRmapPlanningFootstep ext s svm_path bag_path =
        Inl (RuntimeError (''[to_string] Unsupported SamplingSpace: '' @ show_int s)) \<and>
      createRmapSampling ext s rb body_name joint_name_list =
        Inl (RuntimeError (''[to_string] Unsupported SamplingSpace: '' @ show_int s))"
    if u: "s \<notin> {R2, SO2, SE2, R3, SO3, SE3}"
    using u
    by (simp add: createRmapPlanningFootstep_def createRmapSampling_def to_string_unsupported [OF u])
  have b: "createRmapPlanningFootstep ext s svm_path bag_path =
        RmapPlanningFootstep_ctor ext s svm_path bag_path \<and>
      createRmapSampling ext s rb body_name joint_name_list =
        RmapSampling_ctor ext s rb body_name joint_name_list"
    if r: "s \<in> {R2, SO2, SE2, R3, SO3, SE3}"
    by (simp only: createRmapPlanningFootstep_recognized [OF r]
        createRmapSampling_recognized [OF r])
  have c: "createRmapPlanningFootstep ext s svm_path bag_path = Inr (RmapPlanningFootstep s base)"
    if h: "s \<in> {R2, SO2, SE2, R3, SO3, SE3} \<and> (\<forall>topic. advertise ext topic = Inr ()) \<and>
      RmapPlanning_ctor ext s svm_path bag_path = Inr base"
  proof -
    have adv: "advertise_all (advertise ext) topics = Inr ()" for topics
      using h by (intro advertise_all_ok) simp
    show ?thesis
      using h createRmapPlanningFootstep_recognized [of s ext svm_path bag_path]
      by (simp add: RmapPlanningFootstep_ctor_def adv)
  qed
  have d: "createRmapSampling ext s rb body_name joint_name_list =
        Inr (RmapSampling s rb body_name body_idx joint_name_list)"
    if h: "s \<in> {R2, SO2, SE2, R3, SO3, SE3} \<and> (\<forall>topic. advertise ext topic = Inr ()) \<and>
      robot_setup ext rb = Inr () \<and> bodyIndexByName ext rb body_name = Inr body_idx"
  proof -
    have adv: "advertise_all (advertise ext) topics = Inr ()" for topics
      using h by (intro advertise_all_ok) simp
    show ?thesis
      using h createRmapSampling_recognized [of s ext rb body_name joint_name_list]
      by (simp add: RmapSampling_ctor_def adv)
  qed
  have e1: "createRmapPlanningFootstep ext s svm_path bag_path = Inl e"
    if h: "s \<in> {R2, SO2, SE2, R3, SO3, SE3} \<and> RmapPlanning_ctor ext s svm_path bag_path = Inl e"
    using h createRmapPlanningFootstep_recognized [of s ext svm_path bag_path]
    by (simp add: RmapPlanningFootstep_ctor_def)
  have e2: "createRmapSampling ext s rb body_name joint_name_list = Inl e"
    if h: "s \<in> {R2, SO2, SE2, R3, SO3, SE3} \<and> (\<forall>topic. advertise ext topic = Inr ()) \<and>
      robot_setup ext rb = Inr () \<and> bodyIndexByName ext rb body_name = Inl e"
  proof -
    have adv: "advertise_all (advertise ext) topics = Inr ()" for topics
      using h by (intro advertise_all_ok) simp
    show ?thesis
      using h createRmapSampling_recognized [of s ext rb body_name joint_name_list]
      by (simp add: RmapSampling_ctor_def adv)
  qed
  from a b c d e1 e2 show ?thesis by blast
qed

theorem factory_sampling_space_witness:
  "createRmapPlanningFootstep stub_collaborators 24 ''m.libsvm'' ''g.bag'' =
     Inl (RuntimeError ''[to_string] Unsupported SamplingSpace: 24'') \<and>
   createRmapSampling stub_collaborators 24 [''base'', ''hand''] ''hand'' [''j1''] =
     Inl (RuntimeError ''[to_string] Unsupported SamplingSpace: 24'') \<and>
   createRmapPlanningFootstep stub_collaborators SE2 ''m.libsvm'' ''g.bag'' =
     Inr (RmapPlanningFootstep SE2 (''m.libsvm'', ''g.bag'')) \<and>
   createRmapSampling stub_collaborators SE2 [''base'', ''hand''] ''hand'' [''j1''] =
     Inr (RmapSampling SE2 [''base'', ''hand''] ''hand'' 1 [''j1'']) \<and>
   createRmapPlanningFootstep stub_collaborators SE2 [] ''g.bag'' =
     Inl (StdException ''cannot load the classifier'') \<and>
   createRmapSampling stub_collaborators R3 [''base'', ''hand''] ''foot'' [''j1''] =
     Inl (StdException ''out_of_range'')"
proof -
  have s: "show_int 24 = ''24''"
    by (simp add: show_int_def show_nat.simps digit_char_def)
  have u: "(24::int) \<notin> {R2, SO2, SE2, R3, SO3, SE3}"
    by (simp add: R2_def SO2_def SE2_def R3_def SO3_def SE3_def)
  have r: "SE2 \<in> {R2, SO2, SE2, R3, SO3, SE3}" "R3 \<in> {R2, SO2, SE2, R3, SO3, SE3}"
    by simp_all
  have x: "\<forall>topic. advertise stub_collaborators topic = Inr ()"
    "robot_setup stub_collaborators [''base'', ''hand''] = Inr ()"
    "bodyIndexByName stub_collaborators [''base'', ''hand''] ''hand'' = Inr 1"
    "RmapPlanning_ctor stub_collaborators SE2 ''m.libsvm'' ''g.bag'' = Inr (''m.libsvm'', ''g.bag'')"
    "RmapPlanning_ctor stub_collaborators SE2 [] ''g.bag'' = Inl (StdException ''cannot load the classifier'')"
    "bodyIndexByName stub_collaborators [''base'', ''hand''] ''foot'' = Inl (StdException ''out_of_range'')"
    by (simp_all add: stub_collaborators_def)
  show ?thesis
    using factory_sampling_space [of 24 stub_collaborators "''m.libsvm''" "''g.bag''"
        "[''base'', ''hand'']" "''hand''" "[''j1'']" "(''m.libsvm'', ''g.bag'')" 1
        "StdException ''cannot load the classifier''"]
      factory_sampling_space [of SE2 stub_collaborators "''m.libsvm''" "''g.bag''"
        "[''base'', ''hand'']" "''hand''" "[''j1'']" "(''m.libsvm'', ''g.bag'')" 1
        "StdException ''cannot load the classifier''"]
      factory_sampling_space [of SE2 stub_collaborators "[]" "''g.bag''"
        "[''base'', ''hand'']" "''hand''" "[''j1'']" "(''m.libsvm'', ''g.bag'')" 1
        "StdException ''cannot load the classifier''"]
      factory_sampling_space [of R3 stub_collaborators "''m.libsvm''" "''g.bag''"
        "[''base'', ''hand'']" "''foot''" "[''j1'']" "(''m.libsvm'', ''g.bag'')" 1
        "StdException ''out_of_range''"]
      u r s x
    by (simp add: RmapPlanningFootstep_ctor_def RmapSampling_ctor_def)
qed

text \<open>
  The claim as stated fails for a recognized value whose constructor throws: for SE2 and
  a body name the robot does not have, the factory of the sampler returns no instance; the
  exception of the lookup leaves it.
\<close>

theorem factory_constructor_failure_counterexample:
  "SE2 \<in> {R2, SO2, SE2, R3, SO3, SE3} \<and>
   createRmapSampling stub_collaborators SE2 [''base'', ''hand''] ''no_such_body'' [''j1''] =
     Inl (StdException ''out_of_range'')"
  by (simp add: createRmapSampling_def RmapSampling_ctor_def stub_collaborators_def
      R2_def SO2_def SE2_def R3_def SO3_def SE3_def)

section \<open>Properties of the sample set that is dumped\<close>

lemma dump_loop_Suc:
  "dump_loop sd sl rl (Suc k) = dump_iter sd sl rl k (dump_loop sd sl rl k)"
  by (simp add: dump_loop_def)

lemma dump_loop_0: "dump_loop sd sl rl 0 = dump_init sd (length sl)"
  by (simp add: dump_loop_def)

lemma parts_length:
  "length rl = length sl \<Longrightarrow> k \<le> length sl \<Longrightarrow>
   length (reach_part sd sl rl k) + length (unreach_part sd sl rl k) = k"
  unfolding reach_part_def unreach_part_def
  using sum_length_filter_compl [of snd "take k (zip sl rl)"] by simp

lemma dump_loop_inv:
  assumes "length rl = length sl" "k \<le> length sl"
  shows "reachable_idx (dump_loop sd sl rl k) = length (reach_part sd sl rl k) \<and>
         unreachable_idx (dump_loop sd sl rl k) = length (unreach_part sd sl rl k) \<and>
         set_samples (dump_loop sd sl rl k) =
           reach_part sd sl rl k @ replicate (length sl - k) default_sample @ rev (unreach_part sd sl rl k)"
  using assms(2)
proof (induction k)
  case 0
  then show ?case by (simp add: dump_loop_0 dump_init_def reach_part_def unreach_part_def)
next
  case (Suc k)
  then have k: "k < length sl" and IH: "reachable_idx (dump_loop sd sl rl k) = length (reach_part sd sl rl k)"
    "unreachable_idx (dump_loop sd sl rl k) = length (unreach_part sd sl rl k)"
    "set_samples (dump_loop sd sl rl k) =
           reach_part sd sl rl k @ replicate (length sl - k) default_sample @ rev (unreach_part sd sl rl k)"
    by simp_all
  have tk: "take (Suc k) (zip sl rl) = take k (zip sl rl) @ [(sl ! k, rl ! k)]"
    using k assms(1) by (simp add: take_Suc_conv_app_nth)
  have len: "length (reach_part sd sl rl k) + length (unreach_part sd sl rl k) = k"
    using parts_length [OF assms(1)] k by simp
  obtain m where m: "length sl - k = Suc m" using k by (cases "length sl - k") auto
  show ?case
  proof (cases "rl ! k")
    case True
    have R: "reach_part sd sl rl (Suc k) = reach_part sd sl rl k @ [sample_msg sd (sl ! k, True)]"
      and U: "unreach_part sd sl rl (Suc k) = unreach_part sd sl rl k"
      using True by (simp_all add: reach_part_def unreach_part_def tk)
    have m': "length sl - Suc k = m" using m by simp
    show ?thesis
      using True
      by (simp add: dump_loop_Suc dump_iter_def Let_def IH R U m m' list_update_append
          sample_msg_def default_sample_def)
  next
    case False
    have R: "reach_part sd sl rl (Suc k) = reach_part sd sl rl k"
      and U: "unreach_part sd sl rl (Suc k) = unreach_part sd sl rl k @ [sample_msg sd (sl ! k, False)]"
      using False by (simp_all add: reach_part_def unreach_part_def tk)
    have m': "length sl - Suc k = m" using m by simp
    have idx: "length sl - Suc (unreachable_idx (dump_loop sd sl rl k)) = length (reach_part sd sl rl k) + m"
      using len m k IH(2) by linarith
    have rep: "replicate (Suc m) default_sample = replicate m default_sample @ [default_sample]"
      by (simp add: replicate_append_same)
    have cur: "set_samples (dump_loop sd sl rl k) =
        reach_part sd sl rl k @ replicate m default_sample @ default_sample # rev (unreach_part sd sl rl k)"
      using IH(3) m rep by simp
    have upd: "(set_samples (dump_loop sd sl rl k))[length (reach_part sd sl rl k) + m := x] =
        reach_part sd sl rl k @ replicate m default_sample @ x # rev (unreach_part sd sl rl k)" for x
      by (simp add: cur list_update_append)
    have nth: "set_samples (dump_loop sd sl rl k) ! (length (reach_part sd sl rl k) + m) = default_sample"
      by (simp add: cur nth_append)
    have st: "dump_iter sd sl rl k (dump_loop sd sl rl k) =
       (dump_loop sd sl rl k)\<lparr>unreachable_idx := unreachable_idx (dump_loop sd sl rl k) + 1,
          set_samples := reach_part sd sl rl k @ replicate m default_sample @
             sample_msg sd (sl ! k, False) # rev (unreach_part sd sl rl k),
          sample_min := cwiseMin (sample_min (dump_loop sd sl rl k)) (sl ! k),
          sample_max := cwiseMax (sample_max (dump_loop sd sl rl k)) (sl ! k)\<rparr>"
      using False
      by (simp add: dump_iter_def Let_def idx upd nth sample_msg_def default_sample_def)
    show ?thesis
      by (simp add: dump_loop_Suc st IH R U m')
  qed
qed


lemma dump_loop_samples_final:
  assumes "length rl = length sl"
  shows "set_samples (dump_loop sd sl rl (length sl)) =
     map (sample_msg sd) (filter snd (zip sl rl)) @
     rev (map (sample_msg sd) (filter (\<lambda>p. \<not> snd p) (zip sl rl)))"
  using dump_loop_inv [OF assms, of "length sl" sd] assms
  by (simp add: reach_part_def unreach_part_def)

lemma dump_loop_min_max:
  "k \<le> length sl \<Longrightarrow>
   sample_min (dump_loop sd sl rl k) = foldl cwiseMin (replicate sd (10 ^ 10)) (take k sl) \<and>
   sample_max (dump_loop sd sl rl k) = foldl cwiseMax (replicate sd (- (10 ^ 10))) (take k sl)"
proof (induction k)
  case 0
  then show ?case by (simp add: dump_loop_0 dump_init_def)
next
  case (Suc k)
  then have k: "k < length sl" by simp
  show ?case
    using Suc k by (simp add: dump_loop_Suc dump_iter_def Let_def take_Suc_conv_app_nth)
qed

lemma foldl_cwiseMin_nth:
  "\<forall>s\<in>set xs. length s = sd \<Longrightarrow> length a = sd \<Longrightarrow> j < sd \<Longrightarrow>
   foldl cwiseMin a xs ! j = Min (insert (a ! j) ((\<lambda>s. s ! j) ` set xs))"
proof (induction xs arbitrary: a)
  case Nil
  then show ?case by simp
next
  case (Cons x xs)
  have l: "length (cwiseMin a x) = sd" using Cons.prems by (simp add: cwiseMin_def)
  have n: "cwiseMin a x ! j = min (a ! j) (x ! j)" using Cons.prems by (simp add: cwiseMin_def)
  have "foldl cwiseMin a (x # xs) ! j = Min (insert (min (a ! j) (x ! j)) ((\<lambda>s. s ! j) ` set xs))"
    using Cons.IH [OF _ l] Cons.prems n by simp
  also have "\<dots> = Min (insert (a ! j) ((\<lambda>s. s ! j) ` set (x # xs)))"
  proof (cases "xs = []")
    case True
    then show ?thesis by simp
  next
    case False
    then have ne: "(\<lambda>s. s ! j) ` set xs \<noteq> {}" by simp
    have fin: "finite ((\<lambda>s. s ! j) ` set xs)" by simp
    show ?thesis using ne fin by (simp add: min.assoc)
  qed
  finally show ?case .
qed

lemma foldl_cwiseMax_nth:
  "\<forall>s\<in>set xs. length s = sd \<Longrightarrow> length a = sd \<Longrightarrow> j < sd \<Longrightarrow>
   foldl cwiseMax a xs ! j = Max (insert (a ! j) ((\<lambda>s. s ! j) ` set xs))"
proof (induction xs arbitrary: a)
  case Nil
  then show ?case by simp
next
  case (Cons x xs)
  have l: "length (cwiseMax a x) = sd" using Cons.prems by (simp add: cwiseMax_def)
  have n: "cwiseMax a x ! j = max (a ! j) (x ! j)" using Cons.prems by (simp add: cwiseMax_def)
  have "foldl cwiseMax a (x # xs) ! j = Max (insert (max (a ! j) (x ! j)) ((\<lambda>s. s ! j) ` set xs))"
    using Cons.IH [OF _ l] Cons.prems n by simp
  also have "\<dots> = Max (insert (a ! j) ((\<lambda>s. s ! j) ` set (x # xs)))"
  proof (cases "xs = []")
    case True
    then show ?thesis by simp
  next
    case False
    then have ne: "(\<lambda>s. s ! j) ` set xs \<noteq> {}" by simp
    have fin: "finite ((\<lambda>s. s ! j) ` set xs)" by simp
    show ?thesis using ne fin by (simp add: max.assoc)
  qed
  finally show ?case .
qed

lemma sample_msg_full:
  "length s = sd \<Longrightarrow> sample_msg sd (s, r) = \<lparr>position = s, is_reachable = r\<rparr>"
  using map_nth [of s] by (auto simp: sample_msg_def)

text \<open>
  Claim C7. In the record list that \<open>dumpSampleSet\<close> produces, every record whose
  \<open>is_reachable\<close> flag is true has a smaller index than every record whose flag is false.
  The two input lists have the same length (\<open>run\<close> resizes both to \<open>sample_num\<close>).
\<close>

theorem dumpSampleSet_reachable_first:
  assumes "length reachability_list = length sample_list"
    and "i < length sample_list" and "j < length sample_list"
    and "is_reachable (samples (dumpSampleSet sp sd sample_list reachability_list) ! i)"
    and "\<not> is_reachable (samples (dumpSampleSet sp sd sample_list reachability_list) ! j)"
  shows "i < j"
proof -
  define R where "R = map (sample_msg sd) (filter snd (zip sample_list reachability_list))"
  define U where "U = map (sample_msg sd) (filter (\<lambda>p. \<not> snd p) (zip sample_list reachability_list))"
  have s: "samples (dumpSampleSet sp sd sample_list reachability_list) = R @ rev U"
    by (simp add: dumpSampleSet_def Let_def dump_loop_samples_final [OF assms(1)] R_def U_def)
  have allR: "\<forall>m\<in>set R. is_reachable m" by (auto simp: R_def sample_msg_def)
  have allU: "\<forall>m\<in>set (rev U). \<not> is_reachable m" by (auto simp: U_def sample_msg_def)
  have len: "length R + length U = length sample_list"
    unfolding R_def U_def
    using sum_length_filter_compl [of snd "zip sample_list reachability_list"] assms(1) by simp
  have i: "i < length R"
  proof (rule ccontr)
    assume "\<not> i < length R"
    then have "i - length R < length (rev U)" "(R @ rev U) ! i = rev U ! (i - length R)"
      using assms(2) len by (simp_all add: nth_append)
    then have "(R @ rev U) ! i \<in> set (rev U)"
      using nth_mem by metis
    with allU assms(4) s show False by simp
  qed
  have j: "length R \<le> j"
  proof (rule ccontr)
    assume "\<not> length R \<le> j"
    then have "(R @ rev U) ! j \<in> set R" by (simp add: nth_append)
    with allR assms(5) s show False by simp
  qed
  from i j show ?thesis by simp
qed

text \<open>
  Claim C10, as amended. The record list has one record per input sample and is a
  permutation of the input: as multisets, the records are the pairs of a sample and its
  flag. The persisted minimum and maximum start from the sentinels \<open>10^10\<close> and
  \<open>- 10^10\<close>, so each component is the minimum (maximum) of the sentinel and that
  component of all samples: it is the minimum (maximum) over the samples in every
  component where some sample is at most \<open>10^10\<close> (at least \<open>- 10^10\<close>), and the
  sentinel for an empty list.
\<close>

theorem dumpSampleSet_records:
  assumes len: "length reachability_list = length sample_list"
    and dims: "\<forall>s\<in>set sample_list. length s = sd"
  shows "length (samples (dumpSampleSet sp sd sample_list reachability_list)) = length sample_list \<and>
     mset (samples (dumpSampleSet sp sd sample_list reachability_list)) =
       mset (map2 (\<lambda>s r. \<lparr>position = s, is_reachable = r\<rparr>) sample_list reachability_list) \<and>
     length (msg_min (dumpSampleSet sp sd sample_list reachability_list)) = sd \<and>
     length (msg_max (dumpSampleSet sp sd sample_list reachability_list)) = sd \<and>
     (\<forall>j<sd. msg_min (dumpSampleSet sp sd sample_list reachability_list) ! j =
                Min (insert (10 ^ 10) ((\<lambda>s. s ! j) ` set sample_list)) \<and>
             msg_max (dumpSampleSet sp sd sample_list reachability_list) ! j =
                Max (insert (- (10 ^ 10)) ((\<lambda>s. s ! j) ` set sample_list)) \<and>
             ((\<exists>s\<in>set sample_list. s ! j \<le> 10 ^ 10) \<longrightarrow>
                msg_min (dumpSampleSet sp sd sample_list reachability_list) ! j =
                  Min ((\<lambda>s. s ! j) ` set sample_list)) \<and>
             ((\<exists>s\<in>set sample_list. - (10 ^ 10) \<le> s ! j) \<longrightarrow>
                msg_max (dumpSampleSet sp sd sample_list reachability_list) ! j =
                  Max ((\<lambda>s. s ! j) ` set sample_list)) \<and>
             (sample_list = [] \<longrightarrow>
                msg_min (dumpSampleSet sp sd sample_list reachability_list) ! j = 10 ^ 10 \<and>
                msg_max (dumpSampleSet sp sd sample_list reachability_list) ! j = - (10 ^ 10)))"
proof -
  let ?M = "dumpSampleSet sp sd sample_list reachability_list"
  let ?z = "zip sample_list reachability_list"
  have s: "samples ?M = map (sample_msg sd) (filter snd ?z) @
      rev (map (sample_msg sd) (filter (\<lambda>p. \<not> snd p) ?z))"
    by (simp add: dumpSampleSet_def Let_def dump_loop_samples_final [OF len])
  have m1: "mset (samples ?M) = mset (map (sample_msg sd) ?z)"
    unfolding s by (simp add: mset_filter flip: image_mset_union)
  have eq: "map (sample_msg sd) ?z =
      map2 (\<lambda>s r. \<lparr>position = s, is_reachable = r\<rparr>) sample_list reachability_list"
  proof (rule map_cong [OF refl])
    fix p assume "p \<in> set ?z"
    then have "fst p \<in> set sample_list" by (metis in_set_zipE prod.collapse)
    then have "length (fst p) = sd" using dims by simp
    then show "sample_msg sd p = (case p of (s, r) \<Rightarrow> \<lparr>position = s, is_reachable = r\<rparr>)"
      using sample_msg_full [of "fst p" sd "snd p"] by (simp add: case_prod_unfold)
  qed
  have l: "length (samples ?M) = length sample_list"
    using arg_cong [OF m1, of size] len by simp
  have mm: "msg_min ?M ! j = Min (insert (10 ^ 10) ((\<lambda>s. s ! j) ` set sample_list)) \<and>
            msg_max ?M ! j = Max (insert (- (10 ^ 10)) ((\<lambda>s. s ! j) ` set sample_list))"
    if j: "j < sd" for j
  proof -
    have a: "foldl cwiseMin (replicate sd (10 ^ 10)) sample_list ! j =
        Min (insert (10 ^ 10) ((\<lambda>s. s ! j) ` set sample_list))"
      using foldl_cwiseMin_nth [OF dims _ j, of "replicate sd (10 ^ 10)"] j by simp
    have b: "foldl cwiseMax (replicate sd (- (10 ^ 10))) sample_list ! j =
        Max (insert (- (10 ^ 10)) ((\<lambda>s. s ! j) ` set sample_list))"
      using foldl_cwiseMax_nth [OF dims _ j, of "replicate sd (- (10 ^ 10))"] j by simp
    show ?thesis
      using j dump_loop_min_max [of "length sample_list" sample_list sd reachability_list] a b
      by (simp add: dumpSampleSet_def Let_def)
  qed
  have lo: "Min (insert (10 ^ 10) ((\<lambda>s. s ! j) ` set sample_list)) =
      Min ((\<lambda>s. s ! j) ` set sample_list)"
    if "\<exists>s\<in>set sample_list. s ! j \<le> 10 ^ 10" for j :: nat
  proof -
    let ?S = "(\<lambda>s. s ! j) ` set sample_list"
    from that obtain s where s: "s \<in> set sample_list" "s ! j \<le> 10 ^ 10" by blast
    have fin: "finite ?S" and ne: "?S \<noteq> {}" using s by auto
    have "Min ?S \<le> s ! j" using s fin by (simp add: Min_le)
    then have le: "Min ?S \<le> 10 ^ 10" using s(2) by linarith
    show ?thesis by (simp only: Min_insert [OF fin ne] min_absorb2 [OF le])
  qed
  have hi: "Max (insert (- (10 ^ 10)) ((\<lambda>s. s ! j) ` set sample_list)) =
      Max ((\<lambda>s. s ! j) ` set sample_list)"
    if "\<exists>s\<in>set sample_list. - (10 ^ 10) \<le> s ! j" for j :: nat
  proof -
    let ?S = "(\<lambda>s. s ! j) ` set sample_list"
    from that obtain s where s: "s \<in> set sample_list" "- (10 ^ 10) \<le> s ! j" by blast
    have fin: "finite ?S" and ne: "?S \<noteq> {}" using s by auto
    have "s ! j \<le> Max ?S" using s fin by (simp add: Max_ge)
    then have le: "- (10 ^ 10) \<le> Max ?S" using s(2) by linarith
    show ?thesis by (simp only: Max_insert [OF fin ne] max_absorb2 [OF le])
  qed
  have lens: "length (msg_min ?M) = sd" "length (msg_max ?M) = sd"
    by (simp_all add: dumpSampleSet_def Let_def)
  have perm: "mset (samples ?M) =
      mset (map2 (\<lambda>s r. \<lparr>position = s, is_reachable = r\<rparr>) sample_list reachability_list)"
    using m1 eq by simp
  have comp: "\<forall>j<sd. msg_min ?M ! j = Min (insert (10 ^ 10) ((\<lambda>s. s ! j) ` set sample_list)) \<and>
             msg_max ?M ! j = Max (insert (- (10 ^ 10)) ((\<lambda>s. s ! j) ` set sample_list)) \<and>
             ((\<exists>s\<in>set sample_list. s ! j \<le> 10 ^ 10) \<longrightarrow>
                msg_min ?M ! j = Min ((\<lambda>s. s ! j) ` set sample_list)) \<and>
             ((\<exists>s\<in>set sample_list. - (10 ^ 10) \<le> s ! j) \<longrightarrow>
                msg_max ?M ! j = Max ((\<lambda>s. s ! j) ` set sample_list)) \<and>
             (sample_list = [] \<longrightarrow> msg_min ?M ! j = 10 ^ 10 \<and> msg_max ?M ! j = - (10 ^ 10))"
  proof (intro allI impI conjI)
    fix j assume j: "j < sd"
    show "msg_min ?M ! j = Min (insert (10 ^ 10) ((\<lambda>s. s ! j) ` set sample_list))"
      using mm [OF j] by simp
    show "msg_max ?M ! j = Max (insert (- (10 ^ 10)) ((\<lambda>s. s ! j) ` set sample_list))"
      using mm [OF j] by simp
    show "msg_min ?M ! j = Min ((\<lambda>s. s ! j) ` set sample_list)"
      if "\<exists>s\<in>set sample_list. s ! j \<le> 10 ^ 10"
      using mm [OF j] lo [OF that] by simp
    show "msg_max ?M ! j = Max ((\<lambda>s. s ! j) ` set sample_list)"
      if "\<exists>s\<in>set sample_list. - (10 ^ 10) \<le> s ! j"
      using mm [OF j] hi [OF that] by simp
    show "msg_min ?M ! j = 10 ^ 10" if "sample_list = []"
      using mm [OF j] that by simp
    show "msg_max ?M ! j = - (10 ^ 10)" if "sample_list = []"
      using mm [OF j] that by simp
  qed
  from l perm lens comp show ?thesis by blast
qed

theorem dumpSampleSet_reachable_first_witness:
  "length [True, False, True] = length [[1, 2], [3, 4], [0, 9 :: real]] \<and>
   (1 :: nat) < length [[1, 2], [3, 4], [0, 9 :: real]] \<and>
   (2 :: nat) < length [[1, 2], [3, 4], [0, 9 :: real]] \<and>
   is_reachable (samples (dumpSampleSet SE2 2 [[1, 2], [3, 4], [0, 9]] [True, False, True]) ! 1) \<and>
   \<not> is_reachable (samples (dumpSampleSet SE2 2 [[1, 2], [3, 4], [0, 9]] [True, False, True]) ! 2) \<and>
   (1 :: nat) < 2"
proof -
  have s: "samples (dumpSampleSet SE2 2 [[1, 2], [3, 4], [0, 9]] [True, False, True]) =
      [\<lparr>position = [1, 2], is_reachable = True\<rparr>, \<lparr>position = [0, 9], is_reachable = True\<rparr>,
       \<lparr>position = [3, 4], is_reachable = False\<rparr>]"
    by (simp add: dumpSampleSet_def dump_loop_def dump_init_def dump_iter_def Let_def upt_rec
        default_sample_def)
  show ?thesis
    using dumpSampleSet_reachable_first [of "[True, False, True]" "[[1, 2], [3, 4], [0, 9]]" 1 2 SE2 2] s
    by simp
qed

theorem dumpSampleSet_records_witness:
  "length [True, False, True] = length [[1, 2], [3, 4], [0, 9 :: real]] \<and>
   mset (samples (dumpSampleSet SE2 2 [[1, 2], [3, 4], [0, 9]] [True, False, True])) =
     {#\<lparr>position = [1, 2], is_reachable = True\<rparr>, \<lparr>position = [3, 4], is_reachable = False\<rparr>,
       \<lparr>position = [0, 9], is_reachable = True\<rparr>#} \<and>
   length (msg_min (dumpSampleSet SE2 2 [[1, 2], [3, 4], [0, 9]] [True, False, True])) = 2 \<and>
   msg_min (dumpSampleSet SE2 2 [[1, 2], [3, 4], [0, 9]] [True, False, True]) ! 0 = 0 \<and>
   msg_max (dumpSampleSet SE2 2 [[1, 2], [3, 4], [0, 9]] [True, False, True]) ! 1 = 9"
  using dumpSampleSet_records [of "[True, False, True]" "[[1, 2], [3, 4], [0, 9]]" 2 SE2]
  by simp

text \<open>
  The claim as stated fails for a sample beyond the sentinel: for the single sample
  \<open>(2 * 10^10, 0)\<close> the persisted minimum of the first component is the sentinel
  \<open>10^10\<close>, not the minimum \<open>2 * 10^10\<close> over the input samples.
\<close>

theorem dumpSampleSet_min_counterexample:
  "\<not> (msg_min (dumpSampleSet R2 2 [[2 * 10 ^ 10, 0]] [True]) ! 0 =
        Min ((\<lambda>s. s ! 0) ` set [[2 * 10 ^ 10, 0]]))"
  by (simp add: dumpSampleSet_def dump_loop_def dump_init_def dump_iter_def Let_def upt_rec
      cwiseMin_def)

section \<open>Properties of the adjacent regularization\<close>

text \<open>
  Coefficients are addressed by block coordinates: row \<open>bi * vd + s\<close> is row \<open>s\<close> of
  block row \<open>bi\<close> when \<open>s < vd\<close>.
\<close>

lemma block_coords_eq:
  fixes vd :: nat
  assumes "s < vd" "t < vd"
  shows "(a * vd + s = b * vd + t) = (a = b \<and> s = t)"
proof
  assume e: "a * vd + s = b * vd + t"
  have "(a * vd + s) div vd = a" "(b * vd + t) div vd = b" using assms by simp_all
  then have ab: "a = b" using e by simp
  with e show "a = b \<and> s = t" by simp
qed simp

lemma block_coords_range:
  fixes vd :: nat
  assumes "s < vd"
  shows "(a * vd \<le> bi * vd + s \<and> bi * vd + s < a * vd + vd) = (bi = a)"
proof
  assume h: "a * vd \<le> bi * vd + s \<and> bi * vd + s < a * vd + vd"
  have "(bi * vd + s) div vd = bi" using assms by simp
  moreover have "(bi * vd + s) div vd = a"
  proof -
    have "a * vd \<le> bi * vd + s" "bi * vd + s < (a + 1) * vd" using h by simp_all
    then show ?thesis
      by (metis assms div_nat_eqI mult.commute Suc_eq_plus1)
  qed
  ultimately show "bi = a" by simp
next
  assume "bi = a" then show "a * vd \<le> bi * vd + s \<and> bi * vd + s < a * vd + vd"
    using assms by simp
qed

lemma coeff_block_diagonal_setConstant:
  assumes "s < vd" "t < vd"
  shows "coeff (block_diagonal_setConstant vd (a * vd) (b * vd) v M) (bi * vd + s) (bj * vd + t) =
         (if bi = a \<and> bj = b \<and> s = t then v else coeff M (bi * vd + s) (bj * vd + t))"
proof (cases "bi = a")
  case True
  then show ?thesis
    using assms block_coords_eq [OF assms(2) assms(1), of bj b]
    by (auto simp: block_diagonal_setConstant_def)
next
  case False
  then have "\<not> (a * vd \<le> bi * vd + s \<and> bi * vd + s < a * vd + vd)"
    using block_coords_range [OF assms(1), of a bi] by simp
  then show ?thesis using False by (auto simp: block_diagonal_setConstant_def)
qed

lemma adjacent_reg_loop_Suc:
  "adjacent_reg_loop vd n w start (Suc k) M =
   adjacent_reg_iter vd n w start k (adjacent_reg_loop vd n w start k M)"
  by (simp add: adjacent_reg_loop_def)

lemma adjacent_reg_iter_blocks:
  "adjacent_reg_iter vd n w (B * vd) i M =
     (let M1 = block_diagonal_setConstant vd ((B + i) * vd) ((B + i) * vd)
                 ((if i = n - 1 then 1 else 2) * w) M
      in if i \<noteq> n - 1
         then block_diagonal_setConstant vd ((B + i) * vd) ((B + i + 1) * vd) (- w)
                (block_diagonal_setConstant vd ((B + i + 1) * vd) ((B + i) * vd) (- w) M1)
         else M1)"
  by (simp add: adjacent_reg_iter_def Let_def algebra_simps)

lemma coeff_adjacent_reg_iter:
  assumes "s < vd" "t < vd"
  shows "coeff (adjacent_reg_iter vd n w (B * vd) i M) (bi * vd + s) (bj * vd + t) =
     (if s = t \<and> bi = B + i \<and> bj = B + i then (if i = n - 1 then 1 else 2) * w
      else if s = t \<and> i \<noteq> n - 1 \<and> bi = B + i + 1 \<and> bj = B + i then - w
      else if s = t \<and> i \<noteq> n - 1 \<and> bi = B + i \<and> bj = B + i + 1 then - w
      else coeff M (bi * vd + s) (bj * vd + t))"
proof (cases "i = n - 1")
  case True
  have "adjacent_reg_iter vd n w (B * vd) i M =
      block_diagonal_setConstant vd ((B + i) * vd) ((B + i) * vd) (1 * w) M"
    unfolding adjacent_reg_iter_blocks Let_def using True by simp
  then show ?thesis
    using True by (simp only: coeff_block_diagonal_setConstant [OF assms]) auto
next
  case False
  have "adjacent_reg_iter vd n w (B * vd) i M =
      block_diagonal_setConstant vd ((B + i) * vd) ((B + i + 1) * vd) (- w)
        (block_diagonal_setConstant vd ((B + i + 1) * vd) ((B + i) * vd) (- w)
          (block_diagonal_setConstant vd ((B + i) * vd) ((B + i) * vd) (2 * w) M))"
    unfolding adjacent_reg_iter_blocks Let_def using False by (simp only: if_True if_False not_False_eq_True)
  then show ?thesis
    using False by (simp only: coeff_block_diagonal_setConstant [OF assms]) auto
qed

lemma coeff_adjacent_reg_loop:
  assumes "s < vd" "t < vd"
  shows "coeff (adjacent_reg_loop vd n w (B * vd) k M) (bi * vd + s) (bj * vd + t) =
     (if s = t \<and> bi = bj \<and> B \<le> bi \<and> bi < B + k then (if bi - B = n - 1 then 1 else 2) * w
      else if s = t \<and> bi = bj + 1 \<and> B \<le> bj \<and> bj < B + k \<and> bj - B \<noteq> n - 1 then - w
      else if s = t \<and> bj = bi + 1 \<and> B \<le> bi \<and> bi < B + k \<and> bi - B \<noteq> n - 1 then - w
      else coeff M (bi * vd + s) (bj * vd + t))"
proof (induction k)
  case 0
  then show ?case by (simp add: adjacent_reg_loop_def)
next
  case (Suc k)
  have "coeff (adjacent_reg_loop vd n w (B * vd) (Suc k) M) (bi * vd + s) (bj * vd + t) =
     (if s = t \<and> bi = B + k \<and> bj = B + k then (if k = n - 1 then 1 else 2) * w
      else if s = t \<and> k \<noteq> n - 1 \<and> bi = B + k + 1 \<and> bj = B + k then - w
      else if s = t \<and> k \<noteq> n - 1 \<and> bi = B + k \<and> bj = B + k + 1 then - w
      else coeff (adjacent_reg_loop vd n w (B * vd) k M) (bi * vd + s) (bj * vd + t))"
    by (simp only: adjacent_reg_loop_Suc coeff_adjacent_reg_iter [OF assms])
  also have "\<dots> =
     (if s = t \<and> bi = bj \<and> B \<le> bi \<and> bi < B + Suc k then (if bi - B = n - 1 then 1 else 2) * w
      else if s = t \<and> bi = bj + 1 \<and> B \<le> bj \<and> bj < B + Suc k \<and> bj - B \<noteq> n - 1 then - w
      else if s = t \<and> bj = bi + 1 \<and> B \<le> bi \<and> bi < B + Suc k \<and> bi - B \<noteq> n - 1 then - w
      else coeff M (bi * vd + s) (bj * vd + t))"
  proof (cases "s = t")
    case False
    then show ?thesis unfolding Suc.IH by simp
  next
    case True
    consider (d) "bi = B + k" "bj = B + k" | (l) "bi = B + k + 1" "bj = B + k" | (u) "bi = B + k" "bj = B + k + 1"
      | (o) "\<not> (bi = B + k \<and> bj = B + k)" "\<not> (bi = B + k + 1 \<and> bj = B + k)" "\<not> (bi = B + k \<and> bj = B + k + 1)"
      by blast
    then show ?thesis
    proof cases
      case d
      then show ?thesis unfolding Suc.IH using True by simp
    next
      case l
      then show ?thesis unfolding Suc.IH using True by simp
    next
      case u
      then show ?thesis unfolding Suc.IH using True by simp
    next
      case o
      have a: "(bi = bj \<and> B \<le> bi \<and> bi < B + Suc k) = (bi = bj \<and> B \<le> bi \<and> bi < B + k)"
        using o by auto
      have b: "(bi = bj + 1 \<and> B \<le> bj \<and> bj < B + Suc k \<and> bj - B \<noteq> n - 1) =
               (bi = bj + 1 \<and> B \<le> bj \<and> bj < B + k \<and> bj - B \<noteq> n - 1)"
        using o by auto
      have c: "(bj = bi + 1 \<and> B \<le> bi \<and> bi < B + Suc k \<and> bi - B \<noteq> n - 1) =
               (bj = bi + 1 \<and> B \<le> bi \<and> bi < B + k \<and> bi - B \<noteq> n - 1)"
        using o by auto
      have n1: "\<not> (s = t \<and> bi = B + k \<and> bj = B + k)"
        and n2: "\<not> (s = t \<and> k \<noteq> n - 1 \<and> bi = B + k + 1 \<and> bj = B + k)"
        and n3: "\<not> (s = t \<and> k \<noteq> n - 1 \<and> bi = B + k \<and> bj = B + k + 1)"
        using o by auto
      show ?thesis
        by (simp only: n1 n2 n3 if_False a b c Suc.IH)
    qed
  qed
  finally show ?case .
qed

lemma rows_adjacent_reg_iter:
  "rows (adjacent_reg_iter vd n w st i M) = rows M" "cols (adjacent_reg_iter vd n w st i M) = cols M"
  by (simp_all add: adjacent_reg_iter_def Let_def block_diagonal_setConstant_def)

lemma rows_adjacent_reg_loop:
  "rows (adjacent_reg_loop vd n w st k M) = rows M"
  by (induction k) (simp_all add: adjacent_reg_loop_Suc rows_adjacent_reg_iter, simp add: adjacent_reg_loop_def)

lemma cols_adjacent_reg_loop:
  "cols (adjacent_reg_loop vd n w st k M) = cols M"
  by (induction k) (simp_all add: adjacent_reg_loop_Suc rows_adjacent_reg_iter, simp add: adjacent_reg_loop_def)

section \<open>Properties of setup\<close>

lemma Footstep_setup_qp:
  "qp_coeff (Footstep_setup ops cfg P) =
     (QpCoeff_setup (vel_dim ops * footstep_num cfg) 0 (footstep_num cfg))
       \<lparr>x_min := replicate (vel_dim ops * footstep_num cfg) (- delta_config_limit cfg),
        x_max := replicate (vel_dim ops * footstep_num cfg) (delta_config_limit cfg)\<rparr>"
  by (simp add: Footstep_setup_def Let_def QpCoeff_setup_def setConstant_def)

lemma Footstep_setup_adj:
  "adjacent_reg_mat (Footstep_setup ops cfg P) =
     adjacent_reg_loop (vel_dim ops) (footstep_num cfg) (adjacent_reg_weight cfg) (0 * vel_dim ops)
       (footstep_num cfg)
       (setZero (vel_dim ops * footstep_num cfg) (vel_dim ops * footstep_num cfg))"
  by (simp add: Footstep_setup_def Let_def QpCoeff_setup_def)

lemma those_map_Some:
  "(\<And>x. x \<in> set xs \<Longrightarrow> f x \<noteq> None) \<Longrightarrow> those (map f xs) = Some (map (\<lambda>x. the (f x)) xs)"
  by (induction xs) (auto split: option.splits)

lemma those_all_Some:
  "(\<And>x. x \<in> set xs \<Longrightarrow> x \<noteq> None) \<Longrightarrow> those xs \<noteq> None"
  by (induction xs) (auto split: option.splits)

lemma emplace_present: "emplace k v m k \<noteq> None"
  by (simp add: emplace_def split: option.splits)

lemma emplace_keeps: "m k' \<noteq> None \<Longrightarrow> emplace k v m k' \<noteq> None"
  by (simp add: emplace_def split: option.splits)

lemma start_all_present:
  "fold (\<lambda>limb m. emplace limb (g limb) m) Limbs_all m0 l \<noteq> None"
  by (cases l) (simp_all add: Limbs_all_def emplace_present emplace_keeps)


lemma Locomanip_setup_fields:
  "\<exists>P'. Locomanip_setup ops cfg P = Inr P' \<and>
     qp_coeff P' =
       (QpCoeff_setup (2 * motion_len cfg * vel_dim ops + (3 * motion_len cfg - 1)) 0 (3 * motion_len cfg - 1))
         \<lparr>x_min := replicate (2 * motion_len cfg * vel_dim ops) (- delta_config_limit cfg) @
                    replicate (3 * motion_len cfg - 1) (- (10 ^ 10)),
          x_max := replicate (2 * motion_len cfg * vel_dim ops) (delta_config_limit cfg) @
                    replicate (3 * motion_len cfg - 1) (10 ^ 10)\<rparr> \<and>
     adjacent_reg_mat P' =
       adjacent_reg_loop (vel_dim ops) (motion_len cfg) (adjacent_reg_weight cfg)
         (motion_len cfg * vel_dim ops) (motion_len cfg)
         (adjacent_reg_loop (vel_dim ops) (motion_len cfg) (adjacent_reg_weight cfg) (0 * vel_dim ops)
            (motion_len cfg)
            (setZero (2 * motion_len cfg * vel_dim ops) (2 * motion_len cfg * vel_dim ops))) \<and>
     config_dim P' = 2 * motion_len cfg * vel_dim ops \<and>
     svm_ineq_dim P' = 3 * motion_len cfg - 1 \<and>
     collision_ineq_dim P' = 0 \<and>
     hand_start_config_idx P' = motion_len cfg * vel_dim ops \<and>
     length (current_foot_sample_seq P') = motion_len cfg \<and>
     length (current_hand_sample_seq P') = motion_len cfg \<and>
     start_sample_list P' LeftFoot \<noteq> None \<and>
     start_sample_list P' RightFoot \<noteq> None \<and>
     start_sample_list P' LeftHand \<noteq> None"
proof -
  let ?start = "fold (\<lambda>limb m. emplace limb
                     (poseToSample ops
                        (case initial_sample_pose_list cfg limb of
                           Some pose \<Rightarrow> pose | None \<Rightarrow> pose_identity ops)) m)
                    Limbs_all (start_sample_list P)"
  have sp: "?start l \<noteq> None" for l by (rule start_all_present)
  have "those (concat (map (\<lambda>i. [?start (if i mod 2 = 0 then LeftFoot else RightFoot),
                                          ?start LeftHand]) [0..<motion_len cfg])) \<noteq> None"
  proof (rule those_all_Some)
    fix x assume "x \<in> set (concat (map (\<lambda>i. [?start (if i mod 2 = 0 then LeftFoot else RightFoot),
                                          ?start LeftHand]) [0..<motion_len cfg]))"
    then obtain l where "x = ?start l" by auto
    then show "x \<noteq> None" using sp by simp
  qed
  then obtain ys where ys: "those (concat (map (\<lambda>i. [?start (if i mod 2 = 0 then LeftFoot else RightFoot),
                                          ?start LeftHand]) [0..<motion_len cfg])) = Some ys"
    by blast
  show ?thesis
    unfolding Locomanip_setup_def Let_def ys
    using sp [of LeftFoot] sp [of RightFoot] sp [of LeftHand]
    by (simp add: QpCoeff_setup_def head_setConstant_def tail_setConstant_def)
qed

lemma length_Footstep_setup_samples:
  "length (snd (fold (Footstep_setup_sample_iter ops cfg) [0..<k] (a, xs))) = length xs"
  by (induction k) (simp_all add: Footstep_setup_sample_iter_def Let_def)

lemma length_Footstep_setup_seq:
  "length (current_sample_seq (Footstep_setup ops cfg P)) = footstep_num cfg"
  by (simp add: Footstep_setup_def Let_def length_Footstep_setup_samples)

lemma Locomanip_adjacent_blocks:
  assumes st: "s < vd" "t < vd" and b: "bi < 2 * n" "bj < 2 * n"
  shows "coeff (adjacent_reg_loop vd n w (n * vd) n
                  (adjacent_reg_loop vd n w (0 * vd) n (setZero (2 * n * vd) (2 * n * vd))))
           (bi * vd + s) (bj * vd + t) =
        (if s = t
         then (if bi = bj then (if bi = n - 1 \<or> bi = 2 * n - 1 then 1 else 2) * w
               else if (bi = bj + 1 \<or> bj = bi + 1) \<and> (bi < n \<longleftrightarrow> bj < n) then - w else 0)
         else 0)"
proof (cases "s = t")
  case False
  then show ?thesis
    unfolding coeff_adjacent_reg_loop [OF st] by (simp add: setZero_def)
next
  case True
  consider (ff) "bi < n" "bj < n" | (hh) "n \<le> bi" "n \<le> bj" | (fh) "bi < n" "n \<le> bj" | (hf) "n \<le> bi" "bj < n"
    by linarith
  then show ?thesis
  proof cases
    case ff
    then show ?thesis
      unfolding coeff_adjacent_reg_loop [OF st] using True b by (auto simp: setZero_def)
  next
    case hh
    then show ?thesis
      unfolding coeff_adjacent_reg_loop [OF st] using True b by (auto simp: setZero_def)
  next
    case fh
    then show ?thesis
      unfolding coeff_adjacent_reg_loop [OF st] using True b by (auto simp: setZero_def)
  next
    case hf
    then show ?thesis
      unfolding coeff_adjacent_reg_loop [OF st] using True b by (auto simp: setZero_def)
  qed
qed


text \<open>
  Claim C2, as amended. For a horizon of \<open>N\<close> waypoints and weight \<open>w\<close>, the matrix that
  the footstep planner's \<open>setup\<close> builds is block-tridiagonal: the diagonal block is
  \<open>2 w I\<close> on every waypoint but the last (so also on the first one when \<open>N \<ge> 2\<close>) and
  \<open>w I\<close> on the last, the blocks next to the diagonal are \<open>- w I\<close>, and every other
  block is zero. The locomanipulation planner's \<open>setup\<close> builds one such chain for the
  feet followed by one for the hand, with zero blocks between the two chains.
\<close>

theorem adjacent_reg_mat_blocks:
  "(s < vel_dim ops \<and> t < vel_dim ops \<and> bi < footstep_num cfg \<and> bj < footstep_num cfg \<longrightarrow>
      coeff (adjacent_reg_mat (Footstep_setup ops cfg P)) (bi * vel_dim ops + s) (bj * vel_dim ops + t) =
        (if s = t
         then (if bi = bj then (if bi = footstep_num cfg - 1 then 1 else 2) * adjacent_reg_weight cfg
               else if bi = bj + 1 \<or> bj = bi + 1 then - adjacent_reg_weight cfg else 0)
         else 0)) \<and>
   rows (adjacent_reg_mat (Footstep_setup ops cfg P)) = vel_dim ops * footstep_num cfg \<and>
   cols (adjacent_reg_mat (Footstep_setup ops cfg P)) = vel_dim ops * footstep_num cfg \<and>
   (\<exists>L'. Locomanip_setup lops lcfg L = Inr L' \<and>
      rows (adjacent_reg_mat L') = 2 * motion_len lcfg * vel_dim lops \<and>
      cols (adjacent_reg_mat L') = 2 * motion_len lcfg * vel_dim lops \<and>
      (s < vel_dim lops \<and> t < vel_dim lops \<and> bi < 2 * motion_len lcfg \<and> bj < 2 * motion_len lcfg \<longrightarrow>
         coeff (adjacent_reg_mat L') (bi * vel_dim lops + s) (bj * vel_dim lops + t) =
           (if s = t
            then (if bi = bj
                  then (if bi = motion_len lcfg - 1 \<or> bi = 2 * motion_len lcfg - 1 then 1 else 2) *
                       adjacent_reg_weight lcfg
                  else if (bi = bj + 1 \<or> bj = bi + 1) \<and> (bi < motion_len lcfg \<longleftrightarrow> bj < motion_len lcfg)
                       then - adjacent_reg_weight lcfg else 0)
            else 0)))"
proof -
  have foot: "coeff (adjacent_reg_mat (Footstep_setup ops cfg P)) (bi * vel_dim ops + s) (bj * vel_dim ops + t) =
        (if s = t
         then (if bi = bj then (if bi = footstep_num cfg - 1 then 1 else 2) * adjacent_reg_weight cfg
               else if bi = bj + 1 \<or> bj = bi + 1 then - adjacent_reg_weight cfg else 0)
         else 0)"
    if h: "s < vel_dim ops \<and> t < vel_dim ops \<and> bi < footstep_num cfg \<and> bj < footstep_num cfg"
  proof -
    have st: "s < vel_dim ops" "t < vel_dim ops" using h by simp_all
    show ?thesis
      unfolding Footstep_setup_adj coeff_adjacent_reg_loop [OF st]
      using h by (auto simp: setZero_def)
  qed
  have dims: "rows (adjacent_reg_mat (Footstep_setup ops cfg P)) = vel_dim ops * footstep_num cfg"
    "cols (adjacent_reg_mat (Footstep_setup ops cfg P)) = vel_dim ops * footstep_num cfg"
    by (simp_all add: Footstep_setup_adj rows_adjacent_reg_loop cols_adjacent_reg_loop setZero_def)
  obtain L' where L': "Locomanip_setup lops lcfg L = Inr L'"
    "adjacent_reg_mat L' =
       adjacent_reg_loop (vel_dim lops) (motion_len lcfg) (adjacent_reg_weight lcfg)
         (motion_len lcfg * vel_dim lops) (motion_len lcfg)
         (adjacent_reg_loop (vel_dim lops) (motion_len lcfg) (adjacent_reg_weight lcfg) (0 * vel_dim lops)
            (motion_len lcfg)
            (setZero (2 * motion_len lcfg * vel_dim lops) (2 * motion_len lcfg * vel_dim lops)))"
    using Locomanip_setup_fields [of lops lcfg L] by blast
  have ldims: "rows (adjacent_reg_mat L') = 2 * motion_len lcfg * vel_dim lops"
    "cols (adjacent_reg_mat L') = 2 * motion_len lcfg * vel_dim lops"
    by (simp_all add: L'(2) rows_adjacent_reg_loop cols_adjacent_reg_loop setZero_def)
  have loc: "coeff (adjacent_reg_mat L') (bi * vel_dim lops + s) (bj * vel_dim lops + t) =
           (if s = t
            then (if bi = bj
                  then (if bi = motion_len lcfg - 1 \<or> bi = 2 * motion_len lcfg - 1 then 1 else 2) *
                       adjacent_reg_weight lcfg
                  else if (bi = bj + 1 \<or> bj = bi + 1) \<and> (bi < motion_len lcfg \<longleftrightarrow> bj < motion_len lcfg)
                       then - adjacent_reg_weight lcfg else 0)
            else 0)"
    if h: "s < vel_dim lops \<and> t < vel_dim lops \<and> bi < 2 * motion_len lcfg \<and> bj < 2 * motion_len lcfg"
    unfolding L'(2) using Locomanip_adjacent_blocks [of s "vel_dim lops" t bi "motion_len lcfg" bj] h
    by simp
  from foot dims L'(1) ldims loc show ?thesis by blast
qed

theorem adjacent_reg_mat_blocks_witness:
  "(0 :: nat) < vel_dim (flat_ops R2 2) \<and> (0 :: nat) < footstep_num (footstep_config_ex 2 2 1) \<and>
   (1 :: nat) < footstep_num (footstep_config_ex 2 2 1) \<and>
   coeff (adjacent_reg_mat (Footstep_setup (flat_ops R2 2) (footstep_config_ex 2 2 1)
            (Footstep_new [0, 0]))) (0 * vel_dim (flat_ops R2 2) + 0) (0 * vel_dim (flat_ops R2 2) + 0) = 2 \<and>
   coeff (adjacent_reg_mat (Footstep_setup (flat_ops R2 2) (footstep_config_ex 2 2 1)
            (Footstep_new [0, 0]))) (1 * vel_dim (flat_ops R2 2) + 0) (1 * vel_dim (flat_ops R2 2) + 0) = 1 \<and>
   coeff (adjacent_reg_mat (Footstep_setup (flat_ops R2 2) (footstep_config_ex 2 2 1)
            (Footstep_new [0, 0]))) (1 * vel_dim (flat_ops R2 2) + 0) (0 * vel_dim (flat_ops R2 2) + 0) = - 1"
  using adjacent_reg_mat_blocks [of 0 "flat_ops R2 2" 0 0 "footstep_config_ex 2 2 1" 0 "Footstep_new [0, 0]"
        "flat_ops R2 2" "locomanip_config_ex 1 1" "Locomanip_new [0, 0]"]
    adjacent_reg_mat_blocks [of 0 "flat_ops R2 2" 0 1 "footstep_config_ex 2 2 1" 1 "Footstep_new [0, 0]"
        "flat_ops R2 2" "locomanip_config_ex 1 1" "Locomanip_new [0, 0]"]
    adjacent_reg_mat_blocks [of 0 "flat_ops R2 2" 0 1 "footstep_config_ex 2 2 1" 0 "Footstep_new [0, 0]"
        "flat_ops R2 2" "locomanip_config_ex 1 1" "Locomanip_new [0, 0]"]
  by (simp add: flat_ops_def footstep_config_ex_def)

text \<open>
  The claim as stated fails on the first waypoint block: for two footsteps and weight 1
  its diagonal coefficient is 2, not the weight.
\<close>

theorem adjacent_reg_mat_first_block_counterexample:
  "\<not> (coeff (adjacent_reg_mat (Footstep_setup (flat_ops R2 2) (footstep_config_ex 2 2 1)
              (Footstep_new [0, 0]))) 0 0 =
        adjacent_reg_weight (footstep_config_ex 2 2 1))"
  by (simp add: Footstep_setup_def Let_def QpCoeff_setup_def setConstant_def flat_ops_def
      footstep_config_ex_def adjacent_reg_loop_def adjacent_reg_iter_def upt_rec
      block_diagonal_setConstant_def setZero_def)

text \<open>
  Claim C3, as amended. The locomanipulation planner's \<open>setup\<close> fixes the number of QP
  variables to one velocity block per trajectory waypoint (of the feet and of the hand)
  plus one slack variable per inequality constraint; the bounds of the velocity variables
  are plus and minus the per-step limit, those of the slack variables plus and minus
  \<open>10^10\<close>. The footstep planner's \<open>setup\<close> fixes the number of variables to one velocity
  block per waypoint, with no slack variable for its inequality constraints (one per
  footstep), and all its bounds are plus and minus the per-step limit.
\<close>

theorem setup_variables_and_bounds:
  assumes "1 \<le> motion_len lcfg"
  shows
   "dim_var (qp_coeff (Footstep_setup ops cfg P)) =
      vel_dim ops * length (current_sample_seq (Footstep_setup ops cfg P)) \<and>
    dim_ineq (qp_coeff (Footstep_setup ops cfg P)) = footstep_num cfg \<and>
    x_min (qp_coeff (Footstep_setup ops cfg P)) =
      replicate (vel_dim ops * footstep_num cfg) (- delta_config_limit cfg) \<and>
    x_max (qp_coeff (Footstep_setup ops cfg P)) =
      replicate (vel_dim ops * footstep_num cfg) (delta_config_limit cfg) \<and>
    (\<exists>L'. Locomanip_setup lops lcfg L = Inr L' \<and>
       dim_var (qp_coeff L') =
         vel_dim lops * (length (current_foot_sample_seq L') + length (current_hand_sample_seq L')) +
         dim_ineq (qp_coeff L') \<and>
       dim_ineq (qp_coeff L') = 3 * motion_len lcfg - 1 \<and>
       x_min (qp_coeff L') =
         replicate (2 * motion_len lcfg * vel_dim lops) (- delta_config_limit lcfg) @
         replicate (dim_ineq (qp_coeff L')) (- (10 ^ 10)) \<and>
       x_max (qp_coeff L') =
         replicate (2 * motion_len lcfg * vel_dim lops) (delta_config_limit lcfg) @
         replicate (dim_ineq (qp_coeff L')) (10 ^ 10))"
proof -
  obtain L' where L': "Locomanip_setup lops lcfg L = Inr L'"
    "qp_coeff L' =
       (QpCoeff_setup (2 * motion_len lcfg * vel_dim lops + (3 * motion_len lcfg - 1)) 0 (3 * motion_len lcfg - 1))
         \<lparr>x_min := replicate (2 * motion_len lcfg * vel_dim lops) (- delta_config_limit lcfg) @
                    replicate (3 * motion_len lcfg - 1) (- (10 ^ 10)),
          x_max := replicate (2 * motion_len lcfg * vel_dim lops) (delta_config_limit lcfg) @
                    replicate (3 * motion_len lcfg - 1) (10 ^ 10)\<rparr>"
    "length (current_foot_sample_seq L') = motion_len lcfg"
    "length (current_hand_sample_seq L') = motion_len lcfg"
    using Locomanip_setup_fields [of lops lcfg L] by blast
  have loc: "Locomanip_setup lops lcfg L = Inr L' \<and>
       dim_var (qp_coeff L') =
         vel_dim lops * (length (current_foot_sample_seq L') + length (current_hand_sample_seq L')) +
         dim_ineq (qp_coeff L') \<and>
       dim_ineq (qp_coeff L') = 3 * motion_len lcfg - 1 \<and>
       x_min (qp_coeff L') =
         replicate (2 * motion_len lcfg * vel_dim lops) (- delta_config_limit lcfg) @
         replicate (dim_ineq (qp_coeff L')) (- (10 ^ 10)) \<and>
       x_max (qp_coeff L') =
         replicate (2 * motion_len lcfg * vel_dim lops) (delta_config_limit lcfg) @
         replicate (dim_ineq (qp_coeff L')) (10 ^ 10)"
    using L' by (simp add: QpCoeff_setup_def algebra_simps)
  have foot: "dim_var (qp_coeff (Footstep_setup ops cfg P)) =
      vel_dim ops * length (current_sample_seq (Footstep_setup ops cfg P)) \<and>
    dim_ineq (qp_coeff (Footstep_setup ops cfg P)) = footstep_num cfg \<and>
    x_min (qp_coeff (Footstep_setup ops cfg P)) =
      replicate (vel_dim ops * footstep_num cfg) (- delta_config_limit cfg) \<and>
    x_max (qp_coeff (Footstep_setup ops cfg P)) =
      replicate (vel_dim ops * footstep_num cfg) (delta_config_limit cfg)"
    by (simp add: Footstep_setup_qp length_Footstep_setup_seq QpCoeff_setup_def)
  from foot loc show ?thesis by blast
qed

theorem setup_variables_and_bounds_witness:
  "1 \<le> motion_len (locomanip_config_ex 2 1) \<and>
   dim_var (qp_coeff (Footstep_setup (flat_ops SE2 3) (footstep_config_ex 3 3 1) (Footstep_new [0, 0, 0]))) =
     3 * length (current_sample_seq
       (Footstep_setup (flat_ops SE2 3) (footstep_config_ex 3 3 1) (Footstep_new [0, 0, 0]))) \<and>
   dim_ineq (qp_coeff (Footstep_setup (flat_ops SE2 3) (footstep_config_ex 3 3 1) (Footstep_new [0, 0, 0]))) = 3 \<and>
   x_min (qp_coeff (Footstep_setup (flat_ops SE2 3) (footstep_config_ex 3 3 1) (Footstep_new [0, 0, 0]))) =
     replicate 9 (- (1 / 10)) \<and>
   (\<exists>L'. Locomanip_setup (flat_ops SE2 3) (locomanip_config_ex 2 1) (Locomanip_new [0, 0, 0]) = Inr L' \<and>
      dim_var (qp_coeff L') =
        3 * (length (current_foot_sample_seq L') + length (current_hand_sample_seq L')) + 5 \<and>
      dim_ineq (qp_coeff L') = 5 \<and>
      x_min (qp_coeff L') = replicate 12 (- (1 / 10)) @ replicate 5 (- (10 ^ 10)) \<and>
      x_max (qp_coeff L') = replicate 12 (1 / 10) @ replicate 5 (10 ^ 10))"
proof -
  have m: "1 \<le> motion_len (locomanip_config_ex 2 1)" by (simp add: locomanip_config_ex_def)
  have v: "vel_dim (flat_ops SE2 3) = 3" "footstep_num (footstep_config_ex 3 3 1) = 3"
    "motion_len (locomanip_config_ex 2 1) = 2"
    "delta_config_limit (footstep_config_ex 3 3 1) = 1 / 10"
    "delta_config_limit (locomanip_config_ex 2 1) = 1 / 10"
    by (simp_all add: flat_ops_def footstep_config_ex_def locomanip_config_ex_def)
  show ?thesis
    using m setup_variables_and_bounds [OF m, of "flat_ops SE2 3" "footstep_config_ex 3 3 1"
        "Footstep_new [0, 0, 0]" "flat_ops SE2 3" "Locomanip_new [0, 0, 0]"]
    unfolding v by auto
qed

text \<open>
  The claim as stated fails for the footstep planner: with three footsteps in SE2 it has
  nine variables, the velocity blocks alone, and three inequality constraints.
\<close>

theorem setup_footstep_slack_counterexample:
  "\<not> (dim_var (qp_coeff (Footstep_setup (flat_ops SE2 3) (footstep_config_ex 3 3 1) (Footstep_new [0, 0, 0]))) =
        vel_dim (flat_ops SE2 3) * footstep_num (footstep_config_ex 3 3 1) +
        dim_ineq (qp_coeff (Footstep_setup (flat_ops SE2 3) (footstep_config_ex 3 3 1) (Footstep_new [0, 0, 0]))))"
  by (simp add: Footstep_setup_def Let_def QpCoeff_setup_def flat_ops_def footstep_config_ex_def)

section \<open>Properties of the footstep planner's inequality rows\<close>

lemma coeff_block_row_assign:
  "coeff (block_row_assign n r c v M) i j =
     (if i = r \<and> c \<le> j \<and> j < c + n then v ! (j - c) else coeff M i j)"
  by (simp add: block_row_assign_def)

lemma dims_block_row_assign:
  "rows (block_row_assign n r c v M) = rows M" "cols (block_row_assign n r c v M) = cols M"
  by (simp_all add: block_row_assign_def)

lemma coeff_Footstep_ineq_iter:
  "coeff (ineq_mat (Footstep_ineq_iter ops cfg seq k qp)) i c =
     (if i = k \<and> 0 < k \<and> (k - 1) * vel_dim ops \<le> c \<and> c < (k - 1) * vel_dim ops + vel_dim ops
      then Footstep_ineq_row ops cfg seq k False ! (c - (k - 1) * vel_dim ops)
      else if i = k \<and> k * vel_dim ops \<le> c \<and> c < k * vel_dim ops + vel_dim ops
      then Footstep_ineq_row ops cfg seq k True ! (c - k * vel_dim ops)
      else coeff (ineq_mat qp) i c)"
  by (simp add: Footstep_ineq_iter_def Let_def coeff_block_row_assign)

lemma dims_Footstep_ineq_iter:
  "rows (ineq_mat (Footstep_ineq_iter ops cfg seq k qp)) = rows (ineq_mat qp)"
  "cols (ineq_mat (Footstep_ineq_iter ops cfg seq k qp)) = cols (ineq_mat qp)"
  "length (ineq_vec (Footstep_ineq_iter ops cfg seq k qp)) = length (ineq_vec qp)"
  "obj_mat (Footstep_ineq_iter ops cfg seq k qp) = obj_mat qp"
  "obj_vec (Footstep_ineq_iter ops cfg seq k qp) = obj_vec qp"
  by (simp_all add: Footstep_ineq_iter_def Let_def dims_block_row_assign)

lemma Footstep_ineq_loop_frame:
  "rows (ineq_mat (fold (Footstep_ineq_iter ops cfg seq) [0..<k] qp)) = rows (ineq_mat qp) \<and>
   cols (ineq_mat (fold (Footstep_ineq_iter ops cfg seq) [0..<k] qp)) = cols (ineq_mat qp) \<and>
   length (ineq_vec (fold (Footstep_ineq_iter ops cfg seq) [0..<k] qp)) = length (ineq_vec qp) \<and>
   obj_mat (fold (Footstep_ineq_iter ops cfg seq) [0..<k] qp) = obj_mat qp \<and>
   obj_vec (fold (Footstep_ineq_iter ops cfg seq) [0..<k] qp) = obj_vec qp"
  by (induction k) (simp_all add: dims_Footstep_ineq_iter)

lemma Footstep_ineq_loop_mat:
  "coeff (ineq_mat (fold (Footstep_ineq_iter ops cfg seq) [0..<k] qp)) i c =
     (if i < k \<and> 0 < i \<and> (i - 1) * vel_dim ops \<le> c \<and> c < (i - 1) * vel_dim ops + vel_dim ops
      then Footstep_ineq_row ops cfg seq i False ! (c - (i - 1) * vel_dim ops)
      else if i < k \<and> i * vel_dim ops \<le> c \<and> c < i * vel_dim ops + vel_dim ops
      then Footstep_ineq_row ops cfg seq i True ! (c - i * vel_dim ops)
      else coeff (ineq_mat qp) i c)"
proof (induction k)
  case 0
  then show ?case by simp
next
  case (Suc k)
  show ?case
  proof (cases "i = k")
    case True
    with Suc.IH show ?thesis by (simp add: coeff_Footstep_ineq_iter)
  next
    case False
    then have "(i < Suc k) = (i < k)" by auto
    then show ?thesis using False by (simp add: coeff_Footstep_ineq_iter Suc.IH)
  qed
qed

lemma Footstep_ineq_loop_vec:
  "i < length (ineq_vec qp) \<Longrightarrow>
   ineq_vec (fold (Footstep_ineq_iter ops cfg seq) [0..<k] qp) ! i =
     (if i < k then calcSVMValue ops (Footstep_rel_sample ops cfg seq i) - svm_thre cfg
      else ineq_vec qp ! i)"
proof (induction k)
  case 0
  then show ?case by simp
next
  case (Suc k)
  have l: "i < length (ineq_vec (fold (Footstep_ineq_iter ops cfg seq) [0..<k] qp))"
    using Suc.prems Footstep_ineq_loop_frame [of ops cfg seq k qp] by simp
  have v: "ineq_vec (Footstep_ineq_iter ops cfg seq k q) =
      (ineq_vec q)[k := calcSVMValue ops (Footstep_rel_sample ops cfg seq k) - svm_thre cfg]" for q
    by (simp add: Footstep_ineq_iter_def Let_def)
  show ?case
  proof (cases "i = k")
    case True
    with l show ?thesis by (simp add: v)
  next
    case False
    then have "(i < Suc k) = (i < k)" by auto
    then show ?thesis using False Suc by (simp add: v)
  qed
qed


lemma Footstep_runOnce_qp:
  "qp_coeff (Footstep_runOnce ops cfg solve P) =
     Footstep_set_inequality ops cfg (current_sample_seq P) (Footstep_set_objective ops cfg P)"
  by (simp add: Footstep_runOnce_def Let_def)

lemma nth_tail_negate:
  "k < length v \<Longrightarrow> tail_negate n v ! k = (if length v - n \<le> k then - (v ! k) else v ! k)"
  by (auto simp: tail_negate_def nth_append)

lemma coeff_bottomRows_negate:
  "coeff (bottomRows_negate n M) r c = (if rows M - n \<le> r \<and> r < rows M then - coeff M r c else coeff M r c)"
  by (simp add: bottomRows_negate_def)

text \<open>
  Claim C6. In the footstep planner for SE2 with the alternating-stance flag, inequality
  row \<open>i\<close> of an odd step \<open>i\<close> is computed after mirroring: the last two components of
  the relative sample are negated before the classifier's value and gradient are
  evaluated at it, and the bottom two rows of the Jacobian with respect to the successor
  and of the Jacobian with respect to the predecessor are negated; for an even step
  nothing is negated. The row holds minus the gradient times the Jacobian in the
  successor's block and, after the first step, in the predecessor's block, and the
  inequality vector holds the value minus the threshold.
\<close>

theorem Footstep_SE2_mirroring:
  assumes se2: "SamplingSpaceType ops = SE2" and alt: "alternate_lr cfg"
    and i: "i < footstep_num cfg" and t: "t < vel_dim ops"
    and len: "length (ineq_vec (qp_coeff P)) = footstep_num cfg"
  shows
   "Footstep_rel_sample ops cfg (current_sample_seq P) i =
      (if i mod 2 = 1
       then tail_negate 2 (relSample ops (Footstep_pre_sample ops (current_sample_seq P) i) (current_sample_seq P ! i))
       else relSample ops (Footstep_pre_sample ops (current_sample_seq P) i) (current_sample_seq P ! i)) \<and>
    (\<forall>k < length (relSample ops (Footstep_pre_sample ops (current_sample_seq P) i) (current_sample_seq P ! i)).
       Footstep_rel_sample ops cfg (current_sample_seq P) i ! k =
         (if i mod 2 = 1 \<and>
             length (relSample ops (Footstep_pre_sample ops (current_sample_seq P) i) (current_sample_seq P ! i)) - 2 \<le> k
          then - (relSample ops (Footstep_pre_sample ops (current_sample_seq P) i) (current_sample_seq P ! i) ! k)
          else relSample ops (Footstep_pre_sample ops (current_sample_seq P) i) (current_sample_seq P ! i) ! k)) \<and>
    (\<forall>b r c.
       coeff (Footstep_rel_vel_mat ops cfg (current_sample_seq P) i b) r c =
         (if i mod 2 = 1 \<and>
             rows (relVelToVelMat ops (Footstep_pre_sample ops (current_sample_seq P) i) (current_sample_seq P ! i) b) - 2 \<le> r \<and>
             r < rows (relVelToVelMat ops (Footstep_pre_sample ops (current_sample_seq P) i) (current_sample_seq P ! i) b)
          then - coeff (relVelToVelMat ops (Footstep_pre_sample ops (current_sample_seq P) i) (current_sample_seq P ! i) b) r c
          else coeff (relVelToVelMat ops (Footstep_pre_sample ops (current_sample_seq P) i) (current_sample_seq P ! i) b) r c)) \<and>
    coeff (ineq_mat (qp_coeff (Footstep_runOnce ops cfg solve P))) i (i * vel_dim ops + t) =
      rowvec_mat (vec_scale (- 1) (calcSVMGrad ops (Footstep_rel_sample ops cfg (current_sample_seq P) i)))
        (Footstep_rel_vel_mat ops cfg (current_sample_seq P) i True) ! t \<and>
    (0 < i \<longrightarrow>
       coeff (ineq_mat (qp_coeff (Footstep_runOnce ops cfg solve P))) i ((i - 1) * vel_dim ops + t) =
         rowvec_mat (vec_scale (- 1) (calcSVMGrad ops (Footstep_rel_sample ops cfg (current_sample_seq P) i)))
           (Footstep_rel_vel_mat ops cfg (current_sample_seq P) i False) ! t) \<and>
    ineq_vec (qp_coeff (Footstep_runOnce ops cfg solve P)) ! i =
      calcSVMValue ops (Footstep_rel_sample ops cfg (current_sample_seq P) i) - svm_thre cfg"
proof -
  let ?seq = "current_sample_seq P"
  let ?rel0 = "relSample ops (Footstep_pre_sample ops ?seq i) (?seq ! i)"
  have mir: "Footstep_mirrored ops cfg i = (i mod 2 = 1)"
    using se2 alt by (simp add: Footstep_mirrored_def)
  have rel: "Footstep_rel_sample ops cfg ?seq i = (if i mod 2 = 1 then tail_negate 2 ?rel0 else ?rel0)"
    by (simp add: Footstep_rel_sample_def Let_def mir)
  have relk: "\<forall>k < length ?rel0. Footstep_rel_sample ops cfg ?seq i ! k =
         (if i mod 2 = 1 \<and> length ?rel0 - 2 \<le> k then - (?rel0 ! k) else ?rel0 ! k)"
    by (simp add: rel nth_tail_negate)
  have J: "\<forall>b r c. coeff (Footstep_rel_vel_mat ops cfg ?seq i b) r c =
         (if i mod 2 = 1 \<and> rows (relVelToVelMat ops (Footstep_pre_sample ops ?seq i) (?seq ! i) b) - 2 \<le> r \<and>
             r < rows (relVelToVelMat ops (Footstep_pre_sample ops ?seq i) (?seq ! i) b)
          then - coeff (relVelToVelMat ops (Footstep_pre_sample ops ?seq i) (?seq ! i) b) r c
          else coeff (relVelToVelMat ops (Footstep_pre_sample ops ?seq i) (?seq ! i) b) r c)"
    by (simp add: Footstep_rel_vel_mat_def Let_def mir coeff_bottomRows_negate)
  let ?q0 = "(Footstep_set_objective ops cfg P)
       \<lparr>ineq_mat := setZero (rows (ineq_mat (Footstep_set_objective ops cfg P)))
                      (cols (ineq_mat (Footstep_set_objective ops cfg P))),
        ineq_vec := setConstant (ineq_vec (Footstep_set_objective ops cfg P)) 0\<rparr>"
  have qp: "qp_coeff (Footstep_runOnce ops cfg solve P) =
      fold (Footstep_ineq_iter ops cfg ?seq) [0..<footstep_num cfg] ?q0"
    by (simp add: Footstep_runOnce_qp Footstep_set_inequality_def)
  have suc: "coeff (ineq_mat (qp_coeff (Footstep_runOnce ops cfg solve P))) i (i * vel_dim ops + t) =
      Footstep_ineq_row ops cfg ?seq i True ! t"
  proof -
    have "\<not> (0 < i \<and> (i - 1) * vel_dim ops \<le> i * vel_dim ops + t \<and>
              i * vel_dim ops + t < (i - 1) * vel_dim ops + vel_dim ops)"
    proof
      assume a: "0 < i \<and> (i - 1) * vel_dim ops \<le> i * vel_dim ops + t \<and>
              i * vel_dim ops + t < (i - 1) * vel_dim ops + vel_dim ops"
      then have "(i - 1) * vel_dim ops + vel_dim ops = i * vel_dim ops"
        by (metis Suc_pred' mult_Suc add.commute)
      with a show False by simp
    qed
    then show ?thesis
      unfolding qp Footstep_ineq_loop_mat using i t by auto
  qed
  have pre: "coeff (ineq_mat (qp_coeff (Footstep_runOnce ops cfg solve P))) i ((i - 1) * vel_dim ops + t) =
      Footstep_ineq_row ops cfg ?seq i False ! t" if "0 < i"
    unfolding qp Footstep_ineq_loop_mat using i t that by simp
  have l0: "i < length (ineq_vec ?q0)"
    using i len by (simp add: Footstep_set_objective_def setConstant_def)
  have vec: "ineq_vec (qp_coeff (Footstep_runOnce ops cfg solve P)) ! i =
      calcSVMValue ops (Footstep_rel_sample ops cfg ?seq i) - svm_thre cfg"
    unfolding qp using Footstep_ineq_loop_vec [OF l0, of ops cfg ?seq "footstep_num cfg"] i by simp
  from rel relk J suc pre vec show ?thesis
    unfolding Footstep_ineq_row_def by blast
qed


theorem Footstep_SE2_mirroring_witness:
  "SamplingSpaceType (flat_ops SE2 3) = SE2 \<and> alternate_lr (footstep_config_ex 3 2 1) \<and>
   1 < footstep_num (footstep_config_ex 3 2 1) \<and> 2 < vel_dim (flat_ops SE2 3) \<and>
   length (ineq_vec (qp_coeff (Footstep_setup (flat_ops SE2 3) (footstep_config_ex 3 2 1)
      (Footstep_new [1, 0, 0])))) = footstep_num (footstep_config_ex 3 2 1) \<and>
   Footstep_rel_sample (flat_ops SE2 3) (footstep_config_ex 3 2 1)
     (current_sample_seq (Footstep_setup (flat_ops SE2 3) (footstep_config_ex 3 2 1)
        (Footstep_new [1, 0, 0]))) 1 = [1 / 5, 1 / 5, 1 / 5] \<and>
   ineq_vec (qp_coeff (Footstep_runOnce (flat_ops SE2 3) (footstep_config_ex 3 2 1) (failing_solver [])
     (Footstep_setup (flat_ops SE2 3) (footstep_config_ex 3 2 1) (Footstep_new [1, 0, 0])))) ! 1 = 13 / 100"
proof -
  let ?ops = "flat_ops SE2 3"
  let ?cfg = "footstep_config_ex 3 2 1"
  let ?P = "Footstep_setup ?ops ?cfg (Footstep_new [1, 0, 0])"
  have h: "SamplingSpaceType ?ops = SE2" "alternate_lr ?cfg" "1 < footstep_num ?cfg" "2 < vel_dim ?ops"
    by (simp_all add: flat_ops_def footstep_config_ex_def)
  have l: "length (ineq_vec (qp_coeff ?P)) = footstep_num ?cfg"
    by (simp add: Footstep_setup_qp QpCoeff_setup_def)
  have s: "current_sample_seq ?P = [[1 / 5, 1 / 5, 1 / 5], [2 / 5, 0, 0]]"
    by (simp add: Footstep_setup_def Let_def flat_ops_def footstep_config_ex_def Footstep_new_def
      Footstep_setup_sample_iter_def upt_rec SE2_def tail_negate_def vec_add_def numeral_3_eq_3 numeral_2_eq_2)
  have r: "relSample ?ops (Footstep_pre_sample ?ops (current_sample_seq ?P) 1) (current_sample_seq ?P ! 1) =
      [1 / 5, - (1 / 5), - (1 / 5)]"
    unfolding s by (simp add: Footstep_pre_sample_def flat_ops_def vec_sub_def)
  have v: "calcSVMValue ?ops [1 / 5, 1 / 5, 1 / 5] = 13 / 100" "svm_thre ?cfg = 0"
    by (simp_all add: flat_ops_def squaredNorm_def footstep_config_ex_def)
  show ?thesis
    using h l Footstep_SE2_mirroring [OF h(1) h(2) h(3) h(4) l, of "failing_solver []"]
    unfolding r by (simp add: tail_negate_def v)
qed

section \<open>Properties of the footstep planner's objective\<close>

lemma squaredNorm_append: "squaredNorm (a @ b) = squaredNorm a + squaredNorm b"
  by (simp add: squaredNorm_def)

lemma squaredNorm_zeros: "squaredNorm (replicate n 0) = 0"
  by (induction n) (simp_all add: squaredNorm_def)

lemma Footstep_obj_vec0_eq:
  assumes "length (Footstep_target_error ops P) = vel_dim ops"
  shows "Footstep_obj_vec0 ops P =
     replicate (length (obj_vec (qp_coeff P)) - vel_dim ops) 0 @ Footstep_target_error ops P"
  using assms by (simp add: Footstep_obj_vec0_def tail_assign_def setConstant_def)

lemma Footstep_lambda_eq:
  assumes "length (Footstep_target_error ops P) = vel_dim ops"
  shows "Footstep_lambda ops P = squaredNorm (Footstep_target_error ops P) + 1 / 1000"
  by (simp add: Footstep_lambda_def Footstep_obj_vec0_eq [OF assms] squaredNorm_append squaredNorm_zeros)

lemma coeff_Footstep_obj_mat0:
  assumes "rows (obj_mat (qp_coeff P)) = n" "cols (obj_mat (qp_coeff P)) = n"
  shows "coeff (Footstep_obj_mat0 ops P) r c =
     (if r = c \<and> r < n then (if n - vel_dim ops \<le> r then 1 + Footstep_lambda ops P else Footstep_lambda ops P)
      else 0)"
  using assms
  by (auto simp: Footstep_obj_mat0_def Let_def diagonal_segment_add_def diagonal_tail_setConstant_def setZero_def)

lemma Footstep_set_inequality_frame:
  "obj_mat (Footstep_set_inequality ops cfg seq qp) = obj_mat qp \<and>
   obj_vec (Footstep_set_inequality ops cfg seq qp) = obj_vec qp"
  unfolding Footstep_set_inequality_def
  using Footstep_ineq_loop_frame [of ops cfg seq "footstep_num cfg"] by simp

text \<open>
  Claim C5, as amended. In every \<open>runOnce\<close> of the footstep planner (with at least one
  footstep and the sizes that \<open>setup\<close> gives the objective), \<open>target_error\<close> is
  \<^verbatim>\<open>sampleError(target_sample_, current_sample_seq_.back())\<close>, the error from the goal
  sample to the last waypoint; \<open>lambda\<close> is its squared norm plus \<open>1/1000\<close>; before the
  regularization is added the objective vector is zero except for \<open>target_error\<close> on the
  final velocity block, and the objective matrix is diagonal with \<open>lambda\<close> on every
  velocity block but the last and \<open>1 + lambda\<close> on the last; the objective that the
  solver receives is this matrix plus the adjacent regularization matrix, and this vector
  plus that matrix times the current configuration.
\<close>

theorem Footstep_objective:
  assumes N: "1 \<le> footstep_num cfg"
    and dm: "rows (obj_mat (qp_coeff P)) = vel_dim ops * footstep_num cfg"
            "cols (obj_mat (qp_coeff P)) = vel_dim ops * footstep_num cfg"
    and dv: "length (obj_vec (qp_coeff P)) = vel_dim ops * footstep_num cfg"
    and e: "length (Footstep_target_error ops P) = vel_dim ops"
  shows
   "Footstep_target_error ops P = sampleError ops (target_sample P) (last (current_sample_seq P)) \<and>
    Footstep_lambda ops P = squaredNorm (Footstep_target_error ops P) + 1 / 1000 \<and>
    Footstep_obj_vec0 ops P =
      replicate (vel_dim ops * (footstep_num cfg - 1)) 0 @ Footstep_target_error ops P \<and>
    (\<forall>bi<footstep_num cfg. \<forall>s<vel_dim ops. \<forall>c<vel_dim ops * footstep_num cfg.
       coeff (Footstep_obj_mat0 ops P) (bi * vel_dim ops + s) c =
         (if c = bi * vel_dim ops + s
          then (if bi = footstep_num cfg - 1 then 1 + Footstep_lambda ops P else Footstep_lambda ops P)
          else 0)) \<and>
    (\<forall>r c. coeff (obj_mat (qp_coeff (Footstep_runOnce ops cfg solve P))) r c =
       coeff (Footstep_obj_mat0 ops P) r c + coeff (adjacent_reg_mat P) r c) \<and>
    obj_vec (qp_coeff (Footstep_runOnce ops cfg solve P)) =
      vec_add (Footstep_obj_vec0 ops P)
        (mat_vec (adjacent_reg_mat P) (Footstep_current_config ops cfg P))"
proof -
  let ?vd = "vel_dim ops" and ?N = "footstep_num cfg"
  have n: "?vd * ?N - ?vd = ?vd * (?N - 1)"
    by (simp add: right_diff_distrib')
  have a: "Footstep_target_error ops P = sampleError ops (target_sample P) (last (current_sample_seq P))"
    by (simp add: Footstep_target_error_def)
  have b: "Footstep_lambda ops P = squaredNorm (Footstep_target_error ops P) + 1 / 1000"
    by (rule Footstep_lambda_eq [OF e])
  have c: "Footstep_obj_vec0 ops P = replicate (?vd * (?N - 1)) 0 @ Footstep_target_error ops P"
    using Footstep_obj_vec0_eq [OF e] dv n by simp
  have d: "\<forall>bi<?N. \<forall>s<?vd. \<forall>c<?vd * ?N.
       coeff (Footstep_obj_mat0 ops P) (bi * ?vd + s) c =
         (if c = bi * ?vd + s
          then (if bi = ?N - 1 then 1 + Footstep_lambda ops P else Footstep_lambda ops P)
          else 0)"
  proof (intro allI impI)
    fix bi s c assume bi: "bi < ?N" and s: "s < ?vd" and "c < ?vd * ?N"
    have "bi * ?vd + s < (bi + 1) * ?vd" using s by simp
    also have "\<dots> \<le> ?N * ?vd"
    proof -
      have "bi + 1 \<le> ?N" using bi by simp
      then show ?thesis by (rule mult_le_mono1)
    qed
    finally have r: "bi * ?vd + s < ?vd * ?N" by (simp add: mult.commute)
    have blk: "(?vd * (?N - 1) \<le> bi * ?vd + s) = (bi = ?N - 1)"
    proof
      assume h: "?vd * (?N - 1) \<le> bi * ?vd + s"
      show "bi = ?N - 1"
      proof (rule ccontr)
        assume "bi \<noteq> ?N - 1"
        then have "bi + 1 \<le> ?N - 1" using bi by simp
        then have "(bi + 1) * ?vd \<le> (?N - 1) * ?vd" by (rule mult_le_mono1)
        then show False using h s by (simp add: mult.commute)
      qed
    next
      assume "bi = ?N - 1" then show "?vd * (?N - 1) \<le> bi * ?vd + s" by (simp add: mult.commute)
    qed
    show "coeff (Footstep_obj_mat0 ops P) (bi * ?vd + s) c =
         (if c = bi * ?vd + s
          then (if bi = ?N - 1 then 1 + Footstep_lambda ops P else Footstep_lambda ops P)
          else 0)"
      unfolding coeff_Footstep_obj_mat0 [OF dm] n using r blk by auto
  qed
  have qp: "qp_coeff (Footstep_runOnce ops cfg solve P) =
     Footstep_set_inequality ops cfg (current_sample_seq P) (Footstep_set_objective ops cfg P)"
    by (rule Footstep_runOnce_qp)
  have f: "\<forall>r c. coeff (obj_mat (qp_coeff (Footstep_runOnce ops cfg solve P))) r c =
       coeff (Footstep_obj_mat0 ops P) r c + coeff (adjacent_reg_mat P) r c"
    by (simp add: qp Footstep_set_inequality_frame Footstep_set_objective_def mat_add_def)
  have g: "obj_vec (qp_coeff (Footstep_runOnce ops cfg solve P)) =
      vec_add (Footstep_obj_vec0 ops P)
        (mat_vec (adjacent_reg_mat P) (Footstep_current_config ops cfg P))"
    by (simp add: qp Footstep_set_inequality_frame Footstep_set_objective_def)
  from a b c d f g show ?thesis by blast
qed


theorem Footstep_objective_witness:
  "1 \<le> footstep_num (footstep_config_ex 2 2 1) \<and>
   length (Footstep_target_error (flat_ops R2 2)
     (Footstep_setup (flat_ops R2 2) (footstep_config_ex 2 2 1) (Footstep_new [1, 0]))) = vel_dim (flat_ops R2 2) \<and>
   Footstep_target_error (flat_ops R2 2)
     (Footstep_setup (flat_ops R2 2) (footstep_config_ex 2 2 1) (Footstep_new [1, 0])) = [- (3 / 5), 2 / 5] \<and>
   Footstep_lambda (flat_ops R2 2)
     (Footstep_setup (flat_ops R2 2) (footstep_config_ex 2 2 1) (Footstep_new [1, 0])) = 521 / 1000 \<and>
   Footstep_obj_vec0 (flat_ops R2 2)
     (Footstep_setup (flat_ops R2 2) (footstep_config_ex 2 2 1) (Footstep_new [1, 0])) = [0, 0, - (3 / 5), 2 / 5]"
proof -
  let ?ops = "flat_ops R2 2"
  let ?cfg = "footstep_config_ex 2 2 1"
  let ?P = "Footstep_setup ?ops ?cfg (Footstep_new [1, 0])"
  have N: "1 \<le> footstep_num ?cfg" by (simp add: footstep_config_ex_def)
  have v: "vel_dim ?ops = 2" "footstep_num ?cfg = 2" by (simp_all add: flat_ops_def footstep_config_ex_def)
  have d: "rows (obj_mat (qp_coeff ?P)) = vel_dim ?ops * footstep_num ?cfg"
    "cols (obj_mat (qp_coeff ?P)) = vel_dim ?ops * footstep_num ?cfg"
    "length (obj_vec (qp_coeff ?P)) = vel_dim ?ops * footstep_num ?cfg"
    by (simp_all add: Footstep_setup_qp QpCoeff_setup_def setZero_def)
  have s: "current_sample_seq ?P = [[1 / 5, 1 / 5], [2 / 5, 2 / 5]]"
    by (simp add: Footstep_setup_def Let_def flat_ops_def footstep_config_ex_def Footstep_new_def
      Footstep_setup_sample_iter_def upt_rec SE2_def R2_def vec_add_def numeral_2_eq_2)
  have tg: "target_sample ?P = [1, 0]"
    by (simp add: Footstep_setup_def Let_def Footstep_new_def)
  have e: "Footstep_target_error ?ops ?P = [- (3 / 5), 2 / 5]"
    unfolding Footstep_target_error_def s tg by (simp add: flat_ops_def vec_sub_def)
  have el: "length (Footstep_target_error ?ops ?P) = vel_dim ?ops"
    unfolding e v by simp
  have sq: "squaredNorm [- (3 / 5), 2 / 5] + 1 / 1000 = 521 / 1000"
    by (simp add: squaredNorm_def)
  show ?thesis
    using N el Footstep_objective [OF N d el, of "failing_solver []"]
    unfolding e v sq by (simp add: numeral_2_eq_2)
qed

text \<open>
  The claim as stated gives \<open>target_error\<close> the opposite direction. With the goal at
  \<open>(1, 0)\<close> and the last waypoint at the origin of a translation space,
  \<open>target_error\<close> is \<open>(-1, 0)\<close>: integrating the last waypoint by it does not give
  the goal, while integrating the goal by it gives the last waypoint.
\<close>

theorem Footstep_target_error_direction_counterexample:
  "Footstep_target_error (flat_ops R2 2) ((Footstep_new [1, 0])\<lparr>current_sample_seq := [[0, 0]]\<rparr>) = [- 1, 0] \<and>
   integrateVelToSample (flat_ops R2 2)
     (last (current_sample_seq ((Footstep_new [1, 0])\<lparr>current_sample_seq := [[0, 0]]\<rparr>)))
     (Footstep_target_error (flat_ops R2 2) ((Footstep_new [1, 0])\<lparr>current_sample_seq := [[0, 0]]\<rparr>))
     \<noteq> target_sample ((Footstep_new [1, 0])\<lparr>current_sample_seq := [[0, 0]]\<rparr>) \<and>
   integrateVelToSample (flat_ops R2 2)
     (target_sample ((Footstep_new [1, 0])\<lparr>current_sample_seq := [[0, 0]]\<rparr>))
     (Footstep_target_error (flat_ops R2 2) ((Footstep_new [1, 0])\<lparr>current_sample_seq := [[0, 0]]\<rparr>))
     = last (current_sample_seq ((Footstep_new [1, 0])\<lparr>current_sample_seq := [[0, 0]]\<rparr>))"
  by (simp add: Footstep_target_error_def Footstep_new_def flat_ops_def vec_sub_def vec_add_def)

section \<open>A failed solve\<close>

text \<open>
  Claim C1 fails for the footstep planner: its \<open>runOnce\<close> integrates the vector the
  solver returns without reading \<^verbatim>\<open>solve_failed_\<close>. With one footstep in a
  translation space and a solver that reports a failure and returns \<open>(1/10, 0)\<close>, the
  waypoint moves from \<open>(1/5, 1/5)\<close> to \<open>(3/10, 1/5)\<close>.
\<close>

theorem Footstep_runOnce_ignores_solve_failed:
  "(\<forall>qp. snd (failing_solver [1 / 10, 0] qp)) \<and>
   current_sample_seq (Footstep_setup (flat_ops R2 2) (footstep_config_ex 2 1 1) (Footstep_new [1, 0])) =
     [[1 / 5, 1 / 5]] \<and>
   current_sample_seq (Footstep_runOnce (flat_ops R2 2) (footstep_config_ex 2 1 1) (failing_solver [1 / 10, 0])
     (Footstep_setup (flat_ops R2 2) (footstep_config_ex 2 1 1) (Footstep_new [1, 0]))) =
     [[3 / 10, 1 / 5]]"
proof -
  have s: "current_sample_seq (Footstep_setup (flat_ops R2 2) (footstep_config_ex 2 1 1) (Footstep_new [1, 0])) =
     [[1 / 5, 1 / 5]]"
    by (simp add: Footstep_setup_def Let_def flat_ops_def footstep_config_ex_def Footstep_new_def
      Footstep_setup_sample_iter_def upt_rec SE2_def R2_def vec_add_def numeral_2_eq_2)
  have r: "current_sample_seq (Footstep_runOnce ops cfg (failing_solver v) P) =
      integrate_seq ops (footstep_num cfg) 0 v (current_sample_seq P)"
    for ops :: "vec SamplingOps" and cfg :: "vec FootstepConfiguration" and v P
    by (simp add: Footstep_runOnce_def Let_def failing_solver_def)
  have i: "integrate_seq (flat_ops R2 2) (footstep_num (footstep_config_ex 2 1 1)) 0 [1 / 10, 0] [[1 / 5, 1 / 5]] =
      [[3 / 10, 1 / 5]]"
    by (simp add: integrate_seq_def footstep_config_ex_def flat_ops_def segment_def vec_add_def)
  show ?thesis
    unfolding r s i by (simp add: failing_solver_def)
qed

text \<open>
  The locomanipulation planner does what the claim says: when the solver reports a
  failure, \<open>runOnce\<close> returns normally and neither sequence of samples changes, provided
  integrating a zero velocity leaves a sample unchanged.
\<close>

lemma integrate_seq_zero:
  assumes zero: "\<And>s v. set v \<subseteq> {0} \<Longrightarrow> integrateVelToSample ops s v = s"
  shows "n \<le> length seq \<Longrightarrow> integrate_seq ops n start (replicate m 0) seq = seq"
proof (induction n)
  case 0
  then show ?case by (simp add: integrate_seq_def)
next
  case (Suc n)
  have z: "set (segment (start + n * vel_dim ops) (vel_dim ops) (replicate m 0)) \<subseteq> {0}"
    by (auto simp: segment_def dest: in_set_takeD in_set_dropD)
  have "integrate_seq ops (Suc n) start (replicate m 0) seq =
      (integrate_seq ops n start (replicate m 0) seq)
        [n := integrateVelToSample ops (integrate_seq ops n start (replicate m 0) seq ! n)
           (segment (start + n * vel_dim ops) (vel_dim ops) (replicate m 0))]"
    by (simp add: integrate_seq_def)
  also have "\<dots> = seq"
    using Suc zero [OF z] by simp
  finally show ?case .
qed

lemma Locomanip_runOnce_solve_failed:
  assumes present: "start_sample_list P LeftFoot \<noteq> None" "start_sample_list P LeftHand \<noteq> None"
      "start_sample_list P RightFoot \<noteq> None"
    and fail: "\<And>qp. snd (solve qp)"
    and zero: "\<And>s v. set v \<subseteq> {0} \<Longrightarrow> integrateVelToSample ops s v = s"
    and len: "motion_len cfg \<le> length (current_foot_sample_seq P)"
      "motion_len cfg \<le> length (current_hand_sample_seq P)"
  shows "\<exists>P'. Locomanip_runOnce ops rmapPlanning cfg solve P = Inr P' \<and>
     current_foot_sample_seq P' = current_foot_sample_seq P \<and>
     current_hand_sample_seq P' = current_hand_sample_seq P"
proof -
  obtain lf lh rf where p: "start_sample_list P LeftFoot = Some lf"
    "start_sample_list P LeftHand = Some lh" "start_sample_list P RightFoot = Some rf"
    using present by auto
  show ?thesis
    unfolding Locomanip_runOnce_def Let_def p
    using fail len by (simp add: setConstant_def integrate_seq_zero [OF zero])
qed

section \<open>Properties of the locomanipulation planner's inequality rows\<close>

lemma coeff_Locomanip_ineq_iter:
  "coeff (ineq_mat (Locomanip_ineq_iter ops rp cfg rf seq k qp)) i c =
     (if i = k \<and> k * vel_dim ops \<le> c \<and> c < k * vel_dim ops + vel_dim ops
      then Locomanip_ineq_row ops rp rf seq k True ! (c - k * vel_dim ops)
      else if i = k \<and> 0 < k \<and> (k - 1) * vel_dim ops \<le> c \<and> c < (k - 1) * vel_dim ops + vel_dim ops
      then Locomanip_ineq_row ops rp rf seq k False ! (c - (k - 1) * vel_dim ops)
      else coeff (ineq_mat qp) i c)"
  by (simp add: Locomanip_ineq_iter_def Let_def coeff_block_row_assign)

lemma frame_Locomanip_ineq_iter:
  "rows (ineq_mat (Locomanip_ineq_iter ops rp cfg rf seq k qp)) = rows (ineq_mat qp)"
  "cols (ineq_mat (Locomanip_ineq_iter ops rp cfg rf seq k qp)) = cols (ineq_mat qp)"
  "length (ineq_vec (Locomanip_ineq_iter ops rp cfg rf seq k qp)) = length (ineq_vec qp)"
  "dim_ineq (Locomanip_ineq_iter ops rp cfg rf seq k qp) = dim_ineq qp"
  "dim_var (Locomanip_ineq_iter ops rp cfg rf seq k qp) = dim_var qp"
  by (simp_all add: Locomanip_ineq_iter_def Let_def dims_block_row_assign)

lemma Locomanip_ineq_loop_frame:
  "rows (ineq_mat (fold (Locomanip_ineq_iter ops rp cfg rf seq) [0..<k] qp)) = rows (ineq_mat qp) \<and>
   cols (ineq_mat (fold (Locomanip_ineq_iter ops rp cfg rf seq) [0..<k] qp)) = cols (ineq_mat qp) \<and>
   length (ineq_vec (fold (Locomanip_ineq_iter ops rp cfg rf seq) [0..<k] qp)) = length (ineq_vec qp) \<and>
   dim_ineq (fold (Locomanip_ineq_iter ops rp cfg rf seq) [0..<k] qp) = dim_ineq qp \<and>
   dim_var (fold (Locomanip_ineq_iter ops rp cfg rf seq) [0..<k] qp) = dim_var qp"
  by (induction k) (simp_all add: frame_Locomanip_ineq_iter)

lemma Locomanip_ineq_loop_mat:
  "coeff (ineq_mat (fold (Locomanip_ineq_iter ops rp cfg rf seq) [0..<k] qp)) i c =
     (if i < k \<and> i * vel_dim ops \<le> c \<and> c < i * vel_dim ops + vel_dim ops
      then Locomanip_ineq_row ops rp rf seq i True ! (c - i * vel_dim ops)
      else if i < k \<and> 0 < i \<and> (i - 1) * vel_dim ops \<le> c \<and> c < (i - 1) * vel_dim ops + vel_dim ops
      then Locomanip_ineq_row ops rp rf seq i False ! (c - (i - 1) * vel_dim ops)
      else coeff (ineq_mat qp) i c)"
proof (induction k)
  case 0
  then show ?case by simp
next
  case (Suc k)
  show ?case
  proof (cases "i = k")
    case True
    with Suc.IH show ?thesis by (simp add: coeff_Locomanip_ineq_iter)
  next
    case False
    then have "(i < Suc k) = (i < k)" by auto
    then show ?thesis using False by (simp add: coeff_Locomanip_ineq_iter Suc.IH)
  qed
qed

lemma Locomanip_ineq_loop_vec:
  "i < length (ineq_vec qp) \<Longrightarrow>
   ineq_vec (fold (Locomanip_ineq_iter ops rp cfg rf seq) [0..<k] qp) ! i =
     (if i < k
      then calcSVMValue (rp (Locomanip_foot_limb i)) (Locomanip_rel_sample ops rf seq i) - svm_thre cfg
      else ineq_vec qp ! i)"
proof (induction k)
  case 0
  then show ?case by simp
next
  case (Suc k)
  have l: "i < length (ineq_vec (fold (Locomanip_ineq_iter ops rp cfg rf seq) [0..<k] qp))"
    using Suc.prems Locomanip_ineq_loop_frame [of ops rp cfg rf seq k qp] by simp
  have v: "ineq_vec (Locomanip_ineq_iter ops rp cfg rf seq k q) =
      (ineq_vec q)[k := calcSVMValue (rp (Locomanip_foot_limb k)) (Locomanip_rel_sample ops rf seq k) -
                        svm_thre cfg]" for q
    by (simp add: Locomanip_ineq_iter_def Let_def)
  show ?case
  proof (cases "i = k")
    case True
    with l show ?thesis by (simp add: v)
  next
    case False
    then have "(i < Suc k) = (i < k)" by auto
    then show ?thesis using False Suc by (simp add: v)
  qed
qed

lemma block_below:
  fixes vd :: nat
  assumes "i < L" "c < i * vd + vd"
  shows "c < 2 * L * vd"
proof -
  have "i + 1 \<le> L" using assms(1) by simp
  then have "(i + 1) * vd \<le> L * vd" by (rule mult_le_mono1)
  then have "i * vd + vd \<le> L * vd" by simp
  also have "\<dots> \<le> 2 * L * vd" by simp
  finally show ?thesis using assms(2) by simp
qed


lemma coeff_rightCols_diagonal_head_setConstant:
  "coeff (rightCols_diagonal_head_setConstant k n v M) i j =
     (if i < n \<and> j = cols M - k + i then v else coeff M i j)"
  by (simp add: rightCols_diagonal_head_setConstant_def)

text \<open>
  Claim C4. For a motion length \<open>L \<ge> 1\<close>, \<open>setup\<close> of the locomanipulation planner
  succeeds and the following \<open>runOnce\<close> returns normally with \<open>3 L - 1\<close> inequality
  rows over \<open>2 L\<close> velocity blocks and \<open>3 L - 1\<close> slack variables. Row \<open>i\<close> has
  coefficient \<open>-1\<close> on slack variable \<open>i\<close> and \<open>0\<close> on every other slack variable.
  The reachability constraints between feet occupy rows \<open>0\<close> to \<open>L - 1\<close>: row \<open>i\<close>
  holds minus the gradient times the Jacobian in the block of foot \<open>i\<close> and, for
  \<open>i > 0\<close>, in the block of foot \<open>i - 1\<close>, with the value minus the threshold in the
  inequality vector. With the rows from foot to hand and the collision rows disabled,
  every other coefficient on a velocity variable is zero, and so are the rows \<open>L\<close> to
  \<open>3 L - 2\<close> of the inequality vector.
\<close>

theorem Locomanip_inequality_layout:
  assumes L: "1 \<le> motion_len cfg"
  shows "\<exists>P P' rf. Locomanip_setup ops cfg P0 = Inr P \<and>
     Locomanip_runOnce ops rmapPlanning cfg solve P = Inr P' \<and>
     start_sample_list P RightFoot = Some rf \<and>
     dim_ineq (qp_coeff P') = 3 * motion_len cfg - 1 \<and>
     rows (ineq_mat (qp_coeff P')) = 3 * motion_len cfg - 1 \<and>
     cols (ineq_mat (qp_coeff P')) = 2 * motion_len cfg * vel_dim ops + (3 * motion_len cfg - 1) \<and>
     length (ineq_vec (qp_coeff P')) = 3 * motion_len cfg - 1 \<and>
     (\<forall>i<3 * motion_len cfg - 1. \<forall>j<3 * motion_len cfg - 1.
        coeff (ineq_mat (qp_coeff P')) i (2 * motion_len cfg * vel_dim ops + j) =
          (if j = i then - 1 else 0)) \<and>
     (\<forall>i<motion_len cfg. \<forall>t<vel_dim ops.
        coeff (ineq_mat (qp_coeff P')) i (i * vel_dim ops + t) =
          Locomanip_ineq_row ops rmapPlanning rf (current_foot_sample_seq P) i True ! t \<and>
        (0 < i \<longrightarrow>
           coeff (ineq_mat (qp_coeff P')) i ((i - 1) * vel_dim ops + t) =
             Locomanip_ineq_row ops rmapPlanning rf (current_foot_sample_seq P) i False ! t)) \<and>
     (\<forall>i<motion_len cfg.
        ineq_vec (qp_coeff P') ! i =
          calcSVMValue (rmapPlanning (Locomanip_foot_limb i))
            (Locomanip_rel_sample ops rf (current_foot_sample_seq P) i) - svm_thre cfg) \<and>
     (\<forall>i<3 * motion_len cfg - 1. \<forall>c<2 * motion_len cfg * vel_dim ops.
        (motion_len cfg \<le> i \<or>
         \<not> (i * vel_dim ops \<le> c \<and> c < i * vel_dim ops + vel_dim ops) \<and>
         \<not> (0 < i \<and> (i - 1) * vel_dim ops \<le> c \<and> c < (i - 1) * vel_dim ops + vel_dim ops)) \<longrightarrow>
        coeff (ineq_mat (qp_coeff P')) i c = 0) \<and>
     (\<forall>i. motion_len cfg \<le> i \<and> i < 3 * motion_len cfg - 1 \<longrightarrow> ineq_vec (qp_coeff P') ! i = 0)"
proof -
  let ?L = "motion_len cfg" and ?vd = "vel_dim ops"
  let ?cd = "2 * ?L * ?vd" and ?sd = "3 * ?L - 1"
  from Locomanip_setup_fields [of ops cfg P0]
  obtain P where su: "Locomanip_setup ops cfg P0 = Inr P"
    and qpP: "qp_coeff P =
       (QpCoeff_setup (?cd + ?sd) 0 ?sd)
         \<lparr>x_min := replicate ?cd (- delta_config_limit cfg) @ replicate ?sd (- (10 ^ 10)),
          x_max := replicate ?cd (delta_config_limit cfg) @ replicate ?sd (10 ^ 10)\<rparr>"
    and dims: "config_dim P = ?cd" "svm_ineq_dim P = ?sd" "collision_ineq_dim P = 0"
    and pres: "start_sample_list P LeftFoot \<noteq> None" "start_sample_list P RightFoot \<noteq> None"
      "start_sample_list P LeftHand \<noteq> None"
    by blast
  let ?seq = "current_foot_sample_seq P"
  obtain lf lh rf where st: "start_sample_list P LeftFoot = Some lf"
    "start_sample_list P LeftHand = Some lh" "start_sample_list P RightFoot = Some rf"
    using pres by auto
  let ?obj = "Locomanip_set_objective ops cfg lf lh P"
  let ?q0 = "?obj\<lparr>ineq_mat := setZero (rows (ineq_mat ?obj)) (cols (ineq_mat ?obj)),
                    ineq_vec := setConstant (ineq_vec ?obj) 0\<rparr>"
  let ?q1 = "fold (Locomanip_ineq_iter ops rmapPlanning cfg rf ?seq) [0..<?L] ?q0"
  let ?qp = "Locomanip_set_inequality ops rmapPlanning cfg rf P ?obj"
  have L0: "?L \<noteq> 0" using L by simp
  obtain P' where P': "Locomanip_runOnce ops rmapPlanning cfg solve P = Inr P'"
    and qp': "qp_coeff P' = ?qp"
    unfolding Locomanip_runOnce_def Let_def st using L0 by simp
  have obj: "ineq_mat ?obj = setZero ?sd (?cd + ?sd)" "ineq_vec ?obj = replicate ?sd 0"
    "dim_ineq ?obj = ?sd"
    by (simp_all add: Locomanip_set_objective_def Let_def qpP QpCoeff_setup_def)
  have q0: "ineq_mat ?q0 = setZero ?sd (?cd + ?sd)" "ineq_vec ?q0 = replicate ?sd 0" "dim_ineq ?q0 = ?sd"
    by (simp_all add: obj setZero_def setConstant_def)
  have qp: "?qp = ?q1\<lparr>ineq_mat := rightCols_diagonal_head_setConstant ?sd ?sd (- 1) (ineq_mat ?q1)\<rparr>"
    by (simp add: Locomanip_set_inequality_def Let_def dims)
  have fr: "rows (ineq_mat ?q1) = ?sd" "cols (ineq_mat ?q1) = ?cd + ?sd"
    "length (ineq_vec ?q1) = ?sd" "dim_ineq ?q1 = ?sd"
    using Locomanip_ineq_loop_frame [of ops rmapPlanning cfg rf ?seq ?L ?q0]
    unfolding q0 by (simp_all add: setZero_def)
  have co: "coeff (ineq_mat ?qp) i c =
     (if i < ?sd \<and> c = ?cd + i then - 1
      else if i < ?L \<and> i * ?vd \<le> c \<and> c < i * ?vd + ?vd
      then Locomanip_ineq_row ops rmapPlanning rf ?seq i True ! (c - i * ?vd)
      else if i < ?L \<and> 0 < i \<and> (i - 1) * ?vd \<le> c \<and> c < (i - 1) * ?vd + ?vd
      then Locomanip_ineq_row ops rmapPlanning rf ?seq i False ! (c - (i - 1) * ?vd)
      else 0)" for i c
  proof -
    have co1: "coeff (ineq_mat ?qp) i c =
        (if i < ?sd \<and> c = cols (ineq_mat ?q1) - ?sd + i then - 1 else coeff (ineq_mat ?q1) i c)"
      unfolding qp by (simp add: coeff_rightCols_diagonal_head_setConstant)
    have cc: "cols (ineq_mat ?q1) - ?sd + i = ?cd + i"
      unfolding fr(2) by simp
    have z: "coeff (ineq_mat ?q0) i c = 0"
      unfolding q0 by (simp add: setZero_def)
    show ?thesis
      unfolding co1 cc Locomanip_ineq_loop_mat z by (rule refl)
  qed
  have ve: "ineq_vec ?qp ! i =
     (if i < ?L
      then calcSVMValue (rmapPlanning (Locomanip_foot_limb i)) (Locomanip_rel_sample ops rf ?seq i) -
           svm_thre cfg
      else 0)" if "i < ?sd" for i
  proof -
    have "i < length (ineq_vec ?q0)" using that by (simp add: q0)
    from Locomanip_ineq_loop_vec [OF this, of ops rmapPlanning cfg rf ?seq ?L]
    show ?thesis unfolding qp using that by (simp add: q0)
  qed
  have Lsd: "?L \<le> ?sd" using L by simp
  have c1: "dim_ineq (qp_coeff P') = ?sd" "rows (ineq_mat (qp_coeff P')) = ?sd"
    "cols (ineq_mat (qp_coeff P')) = ?cd + ?sd" "length (ineq_vec (qp_coeff P')) = ?sd"
    unfolding qp' qp by (simp_all add: fr rightCols_diagonal_head_setConstant_def)
  have c2: "\<forall>i<?sd. \<forall>j<?sd. coeff (ineq_mat (qp_coeff P')) i (?cd + j) = (if j = i then - 1 else 0)"
  proof (intro allI impI)
    fix i j assume i: "i < ?sd" and j: "j < ?sd"
    have n1: "\<not> (i < ?L \<and> i * ?vd \<le> ?cd + j \<and> ?cd + j < i * ?vd + ?vd)"
      using block_below [of i ?L "?cd + j" ?vd] by auto
    have n2: "\<not> (i < ?L \<and> 0 < i \<and> (i - 1) * ?vd \<le> ?cd + j \<and> ?cd + j < (i - 1) * ?vd + ?vd)"
    proof
      assume a: "i < ?L \<and> 0 < i \<and> (i - 1) * ?vd \<le> ?cd + j \<and> ?cd + j < (i - 1) * ?vd + ?vd"
      then have "i - 1 < ?L" by linarith
      from block_below [OF this, of "?cd + j" ?vd] a show False by simp
    qed
    show "coeff (ineq_mat (qp_coeff P')) i (?cd + j) = (if j = i then - 1 else 0)"
      unfolding qp' co using i n1 n2 by auto
  qed
  have c3: "\<forall>i<?L. \<forall>t<?vd.
        coeff (ineq_mat (qp_coeff P')) i (i * ?vd + t) =
          Locomanip_ineq_row ops rmapPlanning rf ?seq i True ! t \<and>
        (0 < i \<longrightarrow>
           coeff (ineq_mat (qp_coeff P')) i ((i - 1) * ?vd + t) =
             Locomanip_ineq_row ops rmapPlanning rf ?seq i False ! t)"
  proof (intro allI impI conjI)
    fix i t assume i: "i < ?L" and t: "t < ?vd"
    have b: "i * ?vd + t \<noteq> ?cd + i"
      using block_below [of i ?L "i * ?vd + t" ?vd] i t by auto
    show "coeff (ineq_mat (qp_coeff P')) i (i * ?vd + t) =
          Locomanip_ineq_row ops rmapPlanning rf ?seq i True ! t"
      unfolding qp' co using i t b by auto
    assume i0: "0 < i"
    have "i - 1 < ?L" using i by linarith
    from block_below [OF this, of "(i - 1) * ?vd + t" ?vd] t
    have b': "(i - 1) * ?vd + t \<noteq> ?cd + i" by simp
    have e: "(i - 1) * ?vd + ?vd = i * ?vd"
      using i0 by (metis Suc_pred' mult_Suc add.commute)
    have n: "\<not> (i * ?vd \<le> (i - 1) * ?vd + t)" using e t by linarith
    show "coeff (ineq_mat (qp_coeff P')) i ((i - 1) * ?vd + t) =
          Locomanip_ineq_row ops rmapPlanning rf ?seq i False ! t"
      unfolding qp' co using i t i0 b' n by auto
  qed
  have c4: "\<forall>i<?L. ineq_vec (qp_coeff P') ! i =
          calcSVMValue (rmapPlanning (Locomanip_foot_limb i)) (Locomanip_rel_sample ops rf ?seq i) -
          svm_thre cfg"
    unfolding qp' using ve Lsd by auto
  have c5: "\<forall>i<?sd. \<forall>c<?cd.
        (?L \<le> i \<or>
         \<not> (i * ?vd \<le> c \<and> c < i * ?vd + ?vd) \<and>
         \<not> (0 < i \<and> (i - 1) * ?vd \<le> c \<and> c < (i - 1) * ?vd + ?vd)) \<longrightarrow>
        coeff (ineq_mat (qp_coeff P')) i c = 0"
    unfolding qp' co by auto
  have c6: "\<forall>i. ?L \<le> i \<and> i < ?sd \<longrightarrow> ineq_vec (qp_coeff P') ! i = 0"
    unfolding qp' using ve by auto
  from su P' st(3) c1 c2 c3 c4 c5 c6 show ?thesis by blast
qed


theorem Locomanip_inequality_layout_witness:
  "1 \<le> motion_len (locomanip_config_ex 2 1) \<and>
   (\<exists>P P'. Locomanip_setup (flat_ops SE2 3) (locomanip_config_ex 2 1) (Locomanip_new [1, 0, 0]) = Inr P \<and>
      Locomanip_runOnce (flat_ops SE2 3) (\<lambda>limb. flat_ops SE2 3) (locomanip_config_ex 2 1)
        (failing_solver []) P = Inr P' \<and>
      dim_ineq (qp_coeff P') = 5 \<and> rows (ineq_mat (qp_coeff P')) = 5 \<and>
      cols (ineq_mat (qp_coeff P')) = 17 \<and>
      coeff (ineq_mat (qp_coeff P')) 0 12 = - 1 \<and>
      coeff (ineq_mat (qp_coeff P')) 4 16 = - 1 \<and>
      coeff (ineq_mat (qp_coeff P')) 4 15 = 0 \<and>
      coeff (ineq_mat (qp_coeff P')) 2 0 = 0 \<and>
      ineq_vec (qp_coeff P') ! 4 = 0)"
proof -
  have m: "1 \<le> motion_len (locomanip_config_ex 2 1)" by (simp add: locomanip_config_ex_def)
  have v: "vel_dim (flat_ops SE2 3) = 3" "motion_len (locomanip_config_ex 2 1) = 2"
    by (simp_all add: flat_ops_def locomanip_config_ex_def)
  from Locomanip_inequality_layout [OF m, of "flat_ops SE2 3" "Locomanip_new [1, 0, 0]"
      "\<lambda>limb. flat_ops SE2 3" "failing_solver []"]
  obtain P P' rf where h: "Locomanip_setup (flat_ops SE2 3) (locomanip_config_ex 2 1) (Locomanip_new [1, 0, 0]) = Inr P"
    "Locomanip_runOnce (flat_ops SE2 3) (\<lambda>limb. flat_ops SE2 3) (locomanip_config_ex 2 1)
        (failing_solver []) P = Inr P'"
    "dim_ineq (qp_coeff P') = 5" "rows (ineq_mat (qp_coeff P')) = 5"
    "cols (ineq_mat (qp_coeff P')) = 17"
    and sl: "\<forall>i<5. \<forall>j<5. coeff (ineq_mat (qp_coeff P')) i (12 + j) = (if j = i then - 1 else 0)"
    and ze: "\<forall>i<5. \<forall>c<12. (2 \<le> i \<or>
         \<not> (i * 3 \<le> c \<and> c < i * 3 + 3) \<and>
         \<not> (0 < i \<and> (i - 1) * 3 \<le> c \<and> c < (i - 1) * 3 + 3)) \<longrightarrow>
        coeff (ineq_mat (qp_coeff P')) i c = 0"
    and vz: "\<forall>i. 2 \<le> i \<and> i < 5 \<longrightarrow> ineq_vec (qp_coeff P') ! i = 0"
    unfolding v by auto
  have a: "coeff (ineq_mat (qp_coeff P')) 0 12 = - 1" using sl [rule_format, of 0 0] by simp
  have b: "coeff (ineq_mat (qp_coeff P')) 4 16 = - 1" using sl [rule_format, of 4 4] by simp
  have c: "coeff (ineq_mat (qp_coeff P')) 4 15 = 0" using sl [rule_format, of 4 3] by simp
  have d: "coeff (ineq_mat (qp_coeff P')) 2 0 = 0" using ze [rule_format, of 2 0] by simp
  have e: "ineq_vec (qp_coeff P') ! 4 = 0" using vz [rule_format, of 4] by simp
  from m h a b c d e show ?thesis by blast
qed

end
